theory Spec2Isabelle
  imports Complex_Main "HOL-Library.Sublist" "HOL-Library.Log_Nat"
begin

section \<open>Python values shared by all components\<close>

text \<open>
  A Python \<open>str\<close> is a sequence of Unicode code points, so it is modelled as a list of
  natural numbers (one per code point). The Chinese literals of the source are written
  as their code points; ASCII literals go through \<open>ascii\<close>.
\<close>

type_synonym pystr = "nat list"

definition ascii :: "string \<Rightarrow> pystr" where
  "ascii s = map of_char s"

text \<open>
  \<open>kw in content\<close> on two strings: \<open>kw\<close> occurs in \<open>content\<close> as a contiguous run.
\<close>

fun py_in :: "pystr \<Rightarrow> pystr \<Rightarrow> bool" where
  "py_in kw [] = (kw = [])"
| "py_in kw (c # cs) = (prefix kw (c # cs) \<or> py_in kw cs)"

section \<open>Tag extraction (\<open>DataCrawler._extract_tags\<close>)\<close>

text \<open>
  The vocabulary of \<open>_extract_tags\<close>, in source order: zhangting (limit up),
  dieting (limit down), lihao (good news), likong (bad news), chongzu (restructuring),
  binggou (acquisition), yeji (results), caibao (financial report).
\<close>

definition tag_keywords :: "pystr list" where
  "tag_keywords =
     [[0x6da8, 0x505c], [0x8dcc, 0x505c], [0x5229, 0x597d], [0x5229, 0x7a7a],
      [0x91cd, 0x7ec4], [0x5e76, 0x8d2d], [0x4e1a, 0x7ee9], [0x8d22, 0x62a5]]"

definition extract_tags :: "pystr \<Rightarrow> pystr list" where
  "extract_tags content = filter (\<lambda>kw. py_in kw content) tag_keywords"

text \<open>The sample headline of the specification: "lihao xiaoxi: mou gongsi chongzu huopi".\<close>

definition sample_headline :: pystr where
  "sample_headline =
     [0x5229, 0x597d, 0x6d88, 0x606f, 0xff1a, 0x67d0, 0x516c, 0x53f8, 0x91cd, 0x7ec4,
      0x83b7, 0x6279]"

section \<open>Exceptions, log records and the outside world\<close>

text \<open>
  An exception of class \<open>Exception\<close> (the class every handler of the program catches):
  its class name and \<open>str(e)\<close>.
\<close>

datatype exn = Exception (exn_class: string) (exn_message: pystr)

datatype level = INFO | WARNING | ERROR

text \<open>One constructor per logging call site of the modelled functions.\<close>

datatype log_event =
    IndexCreated pystr
  | IndexAlreadyExists pystr
  | IndexCreateFailed pystr exn
  | BulkInserted pystr nat nat
  | BulkInsertFailed exn
  | CrawlStarted pystr
  | ItemParseFailed pystr exn
  | CrawlFinished pystr nat
  | CrawlFailed pystr exn
  | TaskFailed pystr exn

type_synonym log_entry = "level \<times> log_event"

text \<open>
  A field of an index mapping: its name and its attributes (\<open>type\<close>, \<open>analyzer\<close>).
\<close>

type_synonym index_body = "(string \<times> (string \<times> string) list) list"

text \<open>
  Calls that leave the process: the HTTP fetch of a page and the calls on the
  Elasticsearch client. A bulk call carries its actions, each the pair of
  \<open>_index\<close> and \<open>_source\<close>.
\<close>

datatype 'd request =
    HttpGet pystr
  | EsExists pystr
  | EsCreate pystr index_body
  | EsBulk "(pystr \<times> 'd) list"

text \<open>
  The world a function runs in: the calls made so far, the log written so far, the
  indices the store holds (name and mapping, in creation order) and the number of
  clock readings taken so far.
\<close>

record 'd world =
  requests :: "'d request list"
  logs :: "log_entry list"
  indices :: "(pystr \<times> index_body) list"
  ticks :: nat

definition log_to :: "level \<Rightarrow> log_event \<Rightarrow> 'd world \<Rightarrow> 'd world" where
  "log_to l ev w = w\<lparr>logs := logs w @ [(l, ev)]\<rparr>"

definition send :: "'d request \<Rightarrow> 'd world \<Rightarrow> 'd world" where
  "send r w = w\<lparr>requests := requests w @ [r]\<rparr>"

section \<open>ElasticsearchClient\<close>

subsection \<open>The store behind \<open>es.indices\<close>\<close>

text \<open>
  The store is outside the program. Its answers are modelled by the indices it holds
  and by a fault plan: \<open>faults k = Some e\<close> makes the call issued when \<open>k\<close> calls
  have been made before it raise \<open>e\<close> and change nothing. A create call for a name the
  store already holds is refused by the store.
\<close>

type_synonym fault_plan = "nat \<Rightarrow> exn option"

definition already_exists :: exn where
  "already_exists = Exception ''RequestError'' (ascii ''resource_already_exists_exception'')"

definition es_indices_exists ::
  "fault_plan \<Rightarrow> pystr \<Rightarrow> 'd world \<Rightarrow> (exn + bool) \<times> 'd world" where
  "es_indices_exists faults name w =
     (case faults (length (requests w)) of
        Some e \<Rightarrow> (Inl e, send (EsExists name) w)
      | None \<Rightarrow> (Inr (name \<in> set (map fst (indices w))), send (EsExists name) w))"

definition es_indices_create ::
  "fault_plan \<Rightarrow> pystr \<Rightarrow> index_body \<Rightarrow> 'd world \<Rightarrow> (exn + unit) \<times> 'd world" where
  "es_indices_create faults name body w =
     (case faults (length (requests w)) of
        Some e \<Rightarrow> (Inl e, send (EsCreate name body) w)
      | None \<Rightarrow>
          if name \<in> set (map fst (indices w))
          then (Inl already_exists, send (EsCreate name body) w)
          else (Inr (), (send (EsCreate name body) w)\<lparr>indices := indices w @ [(name, body)]\<rparr>))"

subsection \<open>\<open>_create_indices\<close>\<close>

definition index_definitions :: "(pystr \<times> index_body) list" where
  "index_definitions =
     [(ascii ''sina_live_data'',
        [(''content'', [(''type'', ''text''), (''analyzer'', ''standard'')]),
         (''publish_time'', [(''type'', ''date'')]),
         (''source'', [(''type'', ''keyword'')]),
         (''author'', [(''type'', ''keyword'')]),
         (''create_time'', [(''type'', ''date'')]),
         (''tags'', [(''type'', ''keyword'')])]),
      (ascii ''eastmoney_newstock_data'',
        [(''stock_code'', [(''type'', ''keyword'')]),
         (''stock_name'', [(''type'', ''text'')]),
         (''issue_price'', [(''type'', ''float'')]),
         (''issue_date'', [(''type'', ''date'')]),
         (''listing_date'', [(''type'', ''date'')]),
         (''pe_ratio'', [(''type'', ''float'')]),
         (''industry'', [(''type'', ''keyword'')]),
         (''create_time'', [(''type'', ''date'')])]),
      (ascii ''eastmoney_industry_data'',
        [(''title'', [(''type'', ''text'')]),
         (''content'', [(''type'', ''text'')]),
         (''industry'', [(''type'', ''keyword'')]),
         (''publish_time'', [(''type'', ''date'')]),
         (''url'', [(''type'', ''keyword'')]),
         (''create_time'', [(''type'', ''date'')])]),
      (ascii ''analysis_results'',
        [(''analysis_type'', [(''type'', ''keyword'')]),
         (''content'', [(''type'', ''text'')]),
         (''data_source'', [(''type'', ''keyword'')]),
         (''metrics'', [(''type'', ''object'')]),
         (''create_time'', [(''type'', ''date'')])]),
      (ascii ''trading_strategies'',
        [(''type'', [(''type'', ''keyword'')]),
         (''strategy'', [(''type'', ''text'')]),
         (''risk_level'', [(''type'', ''keyword'')]),
         (''target_stocks'', [(''type'', ''keyword'')]),
         (''confidence'', [(''type'', ''float'')]),
         (''create_time'', [(''type'', ''date'')])])]"

text \<open>
  The body of the \<open>for\<close> loop: one \<open>try\<close> around the existence check and the
  creation, whose handler logs the error and lets the loop go on.
\<close>

definition create_index :: "fault_plan \<Rightarrow> pystr \<times> index_body \<Rightarrow> 'd world \<Rightarrow> 'd world" where
  "create_index faults d w =
     (case es_indices_exists faults (fst d) w of
        (Inl e, w1) \<Rightarrow> log_to ERROR (IndexCreateFailed (fst d) e) w1
      | (Inr True, w1) \<Rightarrow> log_to INFO (IndexAlreadyExists (fst d)) w1
      | (Inr False, w1) \<Rightarrow>
          (case es_indices_create faults (fst d) (snd d) w1 of
             (Inl e, w2) \<Rightarrow> log_to ERROR (IndexCreateFailed (fst d) e) w2
           | (Inr u, w2) \<Rightarrow> log_to INFO (IndexCreated (fst d)) w2))"

fun create_indices_loop ::
  "fault_plan \<Rightarrow> (pystr \<times> index_body) list \<Rightarrow> 'd world \<Rightarrow> 'd world" where
  "create_indices_loop faults [] w = w"
| "create_indices_loop faults (d # ds) w = create_indices_loop faults ds (create_index faults d w)"

definition create_indices :: "fault_plan \<Rightarrow> 'd world \<Rightarrow> 'd world" where
  "create_indices faults w = create_indices_loop faults index_definitions w"

definition no_faults :: fault_plan where
  "no_faults = (\<lambda>k. None)"

text \<open>The index a log record of \<open>_create_indices\<close> is about.\<close>

fun log_index :: "log_entry \<Rightarrow> pystr" where
  "log_index (l, IndexCreated n) = n"
| "log_index (l, IndexAlreadyExists n) = n"
| "log_index (l, IndexCreateFailed n e) = n"
| "log_index (l, ev) = []"

subsection \<open>\<open>bulk_insert\<close>\<close>

text \<open>
  \<open>helpers.bulk(es, actions, raise_on_error=False)\<close> either raises or returns the
  number of successes and the list of error items; its outcome is an input of the model.
  What \<open>bulk_insert\<close> returns is \<open>None\<close>, or a pair whose second component is the list
  of error items (first \<open>return\<close>) or a number (the handler's \<open>return\<close>).
\<close>

type_synonym bulk_error = pystr

type_synonym bulk_outcome = "exn + nat \<times> bulk_error list"

datatype failed = FailedItems "bulk_error list" | FailedCount nat


definition bulk_insert ::
  "bulk_outcome \<Rightarrow> pystr \<Rightarrow> 'd list \<Rightarrow> 'd world \<Rightarrow> (nat \<times> failed) option \<times> 'd world" where
  "bulk_insert outcome index documents w =
     (if documents = [] then (None, w)
      else
        (let actions = map (\<lambda>doc. (index, doc)) documents;
             w1 = send (EsBulk actions) w
         in case outcome of
              Inr (success, errs) \<Rightarrow>
                (Some (success, FailedItems errs),
                 log_to INFO (BulkInserted index success (length errs)) w1)
            | Inl e \<Rightarrow>
                (Some (0, FailedCount (length documents)),
                 log_to ERROR (BulkInsertFailed e) w1)))"


section \<open>DataCrawler\<close>

text \<open>
  \<open>datetime.now().isoformat()\<close>: the \<open>k\<close>-th reading of the clock gives \<open>clock k\<close>.
\<close>

definition now_isoformat :: "(nat \<Rightarrow> pystr) \<Rightarrow> 'd world \<Rightarrow> pystr \<times> 'd world" where
  "now_isoformat clock w = (clock (ticks w), w\<lparr>ticks := Suc (ticks w)\<rparr>)"

text \<open>
  The page fetch (\<open>requests.get\<close> and the parse by \<open>BeautifulSoup\<close>) is outside the
  program: it raises, or gives the elements the crawl selects, before the slice.
\<close>

subsection \<open>\<open>_parse_float\<close>\<close>

text \<open>
  \<open>value.replace(c, '')\<close> for a one-character \<open>c\<close> deletes every occurrence of it.
  Python's \<open>float\<close> is a parameter: it raises or gives a number.
\<close>

definition remove_char :: "nat \<Rightarrow> pystr \<Rightarrow> pystr" where
  "remove_char c s = filter (\<lambda>x. x \<noteq> c) s"

definition parse_float :: "(pystr \<Rightarrow> exn + 'f) \<Rightarrow> pystr \<Rightarrow> 'f::zero" where
  "parse_float pyfloat v =
     (case pyfloat (remove_char 0x25 (remove_char 0x2c v)) of
        Inr x \<Rightarrow> x
      | Inl e \<Rightarrow> 0)"

subsection \<open>\<open>crawl_sina_live\<close>\<close>

record live_news =
  content :: pystr
  publish_time :: pystr
  source :: pystr
  author :: pystr
  create_time :: pystr
  tags :: "pystr list"

text \<open>
  A \<open>.bd_i\<close> element: the stripped text of its \<open>.bd_i_txt_c\<close> and \<open>.bd_i_time\<close>
  children, \<open>None\<close> where \<open>select_one\<close> finds no such child.
\<close>

record bd_i =
  bd_i_txt_c :: "pystr option"
  bd_i_time :: "pystr option"

definition attribute_error :: exn where
  "attribute_error =
     Exception ''AttributeError'' (ascii ''NoneType object has no attribute get_text'')"

text \<open>The author label "xinlang caijing".\<close>

definition sina_author :: pystr where
  "sina_author = [0x65b0, 0x6d6a, 0x8d22, 0x7ecf]"

definition sina_index :: pystr where
  "sina_index = ascii ''sina_live_data''"

definition sina_url :: pystr where
  "sina_url = ascii ''https://finance.sina.com.cn/7x24/''"

text \<open>The \<open>try\<close> block of the loop body: \<open>Inl\<close> is the exception its handler catches.\<close>

definition parse_sina_item ::
  "(nat \<Rightarrow> pystr) \<Rightarrow> bd_i \<Rightarrow> 'd world \<Rightarrow> (exn + live_news) \<times> 'd world" where
  "parse_sina_item clock item w =
     (case bd_i_txt_c item of
        None \<Rightarrow> (Inl attribute_error, w)
      | Some text \<Rightarrow>
          (case bd_i_time item of
             None \<Rightarrow> (Inl attribute_error, w)
           | Some time_str \<Rightarrow>
               (let (t1, w1) = now_isoformat clock w;
                    (t2, w2) = now_isoformat clock w1
                in (Inr \<lparr>content = text, publish_time = t1, source = ascii ''sina_finance'',
                         author = sina_author, create_time = t2,
                         tags = extract_tags text\<rparr>, w2))))"

fun sina_loop ::
  "(nat \<Rightarrow> pystr) \<Rightarrow> bd_i list \<Rightarrow> live_news list \<Rightarrow> 'd world \<Rightarrow> live_news list \<times> 'd world" where
  "sina_loop clock [] data_list w = (data_list, w)"
| "sina_loop clock (item # items) data_list w =
     (case parse_sina_item clock item w of
        (Inr data, w1) \<Rightarrow> sina_loop clock items (data_list @ [data]) w1
      | (Inl e, w1) \<Rightarrow>
          sina_loop clock items data_list (log_to WARNING (ItemParseFailed sina_index e) w1))"

definition crawl_sina_live ::
  "(nat \<Rightarrow> pystr) \<Rightarrow> exn + bd_i list \<Rightarrow> bulk_outcome \<Rightarrow> live_news world \<Rightarrow>
   live_news list \<times> live_news world" where
  "crawl_sina_live clock fetched outcome w =
     (let w1 = send (HttpGet sina_url) (log_to INFO (CrawlStarted sina_index) w)
      in case fetched of
           Inl e \<Rightarrow> ([], log_to ERROR (CrawlFailed sina_index e) w1)
         | Inr found \<Rightarrow>
             (let (data_list, w2) = sina_loop clock (take 20 found) [] w1;
                  w3 = (if data_list \<noteq> []
                        then snd (bulk_insert outcome sina_index data_list w2) else w2)
              in (data_list, log_to INFO (CrawlFinished sina_index (length data_list)) w3)))"

subsection \<open>\<open>crawl_eastmoney_newstock\<close>\<close>

record 'f new_stock =
  stock_code :: pystr
  stock_name :: pystr
  issue_price :: 'f
  issue_date :: pystr
  listing_date :: pystr
  pe_ratio :: 'f
  industry :: pystr
  listed_at :: pystr

text \<open>
  A table row is the list of the stripped texts of its \<open>td\<close> cells. The last field of
  the record is the document's \<open>create_time\<close>. With cells that are texts nothing in the
  \<open>try\<close> block of the loop body raises, so the body is \<open>continue\<close> or one document.
\<close>

definition newstock_index :: pystr where
  "newstock_index = ascii ''eastmoney_newstock_data''"

definition newstock_url :: pystr where
  "newstock_url = ascii ''http://data.eastmoney.com/xg/xg/default.html''"

definition parse_newstock_row ::
  "(pystr \<Rightarrow> exn + 'f) \<Rightarrow> (nat \<Rightarrow> pystr) \<Rightarrow> pystr list \<Rightarrow> 'd world \<Rightarrow>
   ('f::zero) new_stock option \<times> 'd world" where
  "parse_newstock_row pyfloat clock cols w =
     (if length cols < 6 then (None, w)
      else
        (let (t, w1) = now_isoformat clock w
         in (Some \<lparr>stock_code = cols ! 0, stock_name = cols ! 1,
                   issue_price = parse_float pyfloat (cols ! 2),
                   issue_date = cols ! 3, listing_date = cols ! 4,
                   pe_ratio = parse_float pyfloat (cols ! 5),
                   industry = (if length cols > 6 then cols ! 6 else []),
                   listed_at = t\<rparr>, w1)))"

fun newstock_loop ::
  "(pystr \<Rightarrow> exn + 'f) \<Rightarrow> (nat \<Rightarrow> pystr) \<Rightarrow> pystr list list \<Rightarrow> ('f::zero) new_stock list \<Rightarrow>
   'd world \<Rightarrow> 'f new_stock list \<times> 'd world" where
  "newstock_loop pyfloat clock [] data_list w = (data_list, w)"
| "newstock_loop pyfloat clock (row # rows) data_list w =
     (case parse_newstock_row pyfloat clock row w of
        (None, w1) \<Rightarrow> newstock_loop pyfloat clock rows data_list w1
      | (Some data, w1) \<Rightarrow> newstock_loop pyfloat clock rows (data_list @ [data]) w1)"

definition crawl_eastmoney_newstock ::
  "(pystr \<Rightarrow> exn + 'f) \<Rightarrow> (nat \<Rightarrow> pystr) \<Rightarrow> exn + pystr list list \<Rightarrow> bulk_outcome \<Rightarrow>
   ('f::zero) new_stock world \<Rightarrow> 'f new_stock list \<times> 'f new_stock world" where
  "crawl_eastmoney_newstock pyfloat clock fetched outcome w =
     (let w1 = send (HttpGet newstock_url) (log_to INFO (CrawlStarted newstock_index) w)
      in case fetched of
           Inl e \<Rightarrow> ([], log_to ERROR (CrawlFailed newstock_index e) w1)
         | Inr found \<Rightarrow>
             (let (data_list, w2) = newstock_loop pyfloat clock (take 10 found) [] w1;
                  w3 = (if data_list \<noteq> []
                        then snd (bulk_insert outcome newstock_index data_list w2) else w2)
              in (data_list,
                  log_to INFO (CrawlFinished newstock_index (length data_list)) w3)))"

subsection \<open>Documents expected from a crawl\<close>

text \<open>
  What the results of a crawl are compared with: the text of a well-formed \<open>.bd_i\<close>
  element (both children present), the document made from a text, and a document with its
  clock readings blanked.
\<close>

definition sina_text :: "bd_i \<Rightarrow> pystr option" where
  "sina_text item =
     (case bd_i_time item of None \<Rightarrow> None | Some time_str \<Rightarrow> bd_i_txt_c item)"

definition sina_document :: "pystr \<Rightarrow> live_news" where
  "sina_document t =
     \<lparr>content = t, publish_time = [], source = ascii ''sina_finance'', author = sina_author,
      create_time = [], tags = extract_tags t\<rparr>"

definition untimed :: "live_news \<Rightarrow> live_news" where
  "untimed d = d\<lparr>publish_time := [], create_time := []\<rparr>"

text \<open>
  The document made from a row of at least six cells, with its clock reading blanked.
\<close>

definition newstock_document :: "(pystr \<Rightarrow> exn + 'f) \<Rightarrow> pystr list \<Rightarrow> ('f::zero) new_stock" where
  "newstock_document pyfloat cols =
     \<lparr>stock_code = cols ! 0, stock_name = cols ! 1,
      issue_price = parse_float pyfloat (cols ! 2),
      issue_date = cols ! 3, listing_date = cols ! 4,
      pe_ratio = parse_float pyfloat (cols ! 5),
      industry = (if length cols > 6 then cols ! 6 else []),
      listed_at = []\<rparr>"

definition undated :: "'f new_stock \<Rightarrow> 'f new_stock" where
  "undated d = d\<lparr>listed_at := []\<rparr>"

subsection \<open>\<open>crawl_eastmoney_industry\<close>\<close>

text \<open>
  A \<open>.news-item\<close> element is the result of \<open>select_one('.title')\<close> on it: \<open>None\<close>, or
  the title element with its stripped text and its \<open>href\<close> attribute when it has one.
  Nothing in the \<open>try\<close> block of the loop body raises: a missing element gives empty
  strings.
\<close>

record title_elem =
  elem_text :: pystr
  elem_href :: "pystr option"

record industry_article =
  title :: pystr
  article_content :: pystr
  article_industry :: pystr
  article_publish_time :: pystr
  url :: pystr
  article_create_time :: pystr

definition industry_index :: pystr where
  "industry_index = ascii ''eastmoney_industry_data''"

definition industry_url :: "pystr \<Rightarrow> pystr" where
  "industry_url ind = ascii ''http://finance.eastmoney.com/a/'' @ ind @ ascii ''.html''"

definition parse_article ::
  "(nat \<Rightarrow> pystr) \<Rightarrow> pystr \<Rightarrow> title_elem option \<Rightarrow> 'd world \<Rightarrow> industry_article \<times> 'd world" where
  "parse_article clock ind title_el w =
     (let title_text = (case title_el of None \<Rightarrow> [] | Some el \<Rightarrow> elem_text el);
          url_link = (case title_el of
                        None \<Rightarrow> []
                      | Some el \<Rightarrow> (case elem_href el of None \<Rightarrow> [] | Some h \<Rightarrow> h));
          (t1, w1) = now_isoformat clock w;
          (t2, w2) = now_isoformat clock w1
      in (\<lparr>title = title_text, article_content = [], article_industry = ind,
           article_publish_time = t1, url = url_link, article_create_time = t2\<rparr>, w2))"

fun industry_loop ::
  "(nat \<Rightarrow> pystr) \<Rightarrow> pystr \<Rightarrow> title_elem option list \<Rightarrow> industry_article list \<Rightarrow> 'd world \<Rightarrow>
   industry_article list \<times> 'd world" where
  "industry_loop clock ind [] data_list w = (data_list, w)"
| "industry_loop clock ind (a # as) data_list w =
     (case parse_article clock ind a w of
        (data, w1) \<Rightarrow> industry_loop clock ind as (data_list @ [data]) w1)"

definition crawl_eastmoney_industry ::
  "(nat \<Rightarrow> pystr) \<Rightarrow> pystr \<Rightarrow> exn + title_elem option list \<Rightarrow> bulk_outcome \<Rightarrow>
   industry_article world \<Rightarrow> industry_article list \<times> industry_article world" where
  "crawl_eastmoney_industry clock ind fetched outcome w =
     (let w1 = send (HttpGet (industry_url ind)) (log_to INFO (CrawlStarted ind) w)
      in case fetched of
           Inl e \<Rightarrow> ([], log_to ERROR (CrawlFailed ind e) w1)
         | Inr found \<Rightarrow>
             (let (data_list, w2) = industry_loop clock ind (take 10 found) [] w1;
                  w3 = (if data_list \<noteq> []
                        then snd (bulk_insert outcome industry_index data_list w2) else w2)
              in (data_list, log_to INFO (CrawlFinished ind (length data_list)) w3)))"

section \<open>DataAnalyzer\<close>

text \<open>
  A document returned by a search, as far as its text fields go: a dictionary from field
  names to strings. \<open>item.get('content', '')\<close> reads it.
\<close>

type_synonym hit = "string \<rightharpoonup> pystr"

definition get_content :: "hit \<Rightarrow> pystr" where
  "get_content item = (case item ''content'' of None \<Rightarrow> [] | Some c \<Rightarrow> c)"

text \<open>\<open>any(kw in item.get('content', '') for kw in keywords)\<close>\<close>

definition any_keyword_in :: "pystr list \<Rightarrow> hit \<Rightarrow> bool" where
  "any_keyword_in keywords item = list_ex (\<lambda>kw. py_in kw (get_content item)) keywords"

text \<open>\<open>sum(1 for item in data if any(...))\<close>\<close>

definition keyword_count :: "pystr list \<Rightarrow> hit list \<Rightarrow> nat" where
  "keyword_count keywords data = length (filter (any_keyword_in keywords) data)"

subsection \<open>\<open>_analyze_market_sentiment\<close>\<close>

text \<open>
  The keyword lists: lihao, shangzhang (rise), tupo (breakthrough), chuang xin gao
  (new high); likong, xiadie (fall), powei (break below), chuang xin di (new low).
\<close>

definition positive_keywords :: "pystr list" where
  "positive_keywords =
     [[0x5229, 0x597d], [0x4e0a, 0x6da8], [0x7a81, 0x7834], [0x521b, 0x65b0, 0x9ad8]]"

definition negative_keywords :: "pystr list" where
  "negative_keywords =
     [[0x5229, 0x7a7a], [0x4e0b, 0x8dcc], [0x7834, 0x4f4d], [0x521b, 0x65b0, 0x4f4e]]"

text \<open>
  The three sentences returned: "sentiment neutral, wait and see", "sentiment leaning
  long (pian duo), take part moderately", "sentiment leaning short (pian kong), act with
  caution".
\<close>

definition neutral :: pystr where
  "neutral =
     [0x5e02, 0x573a, 0x60c5, 0x7eea, 0x4e2d, 0x6027, 0xff0c, 0x5efa, 0x8bae, 0x89c2, 0x671b]"

definition bullish :: pystr where
  "bullish =
     [0x5e02, 0x573a, 0x60c5, 0x7eea, 0x504f, 0x591a, 0xff0c, 0x5efa, 0x8bae, 0x9002, 0x5ea6,
      0x53c2, 0x4e0e]"

definition bearish :: pystr where
  "bearish =
     [0x5e02, 0x573a, 0x60c5, 0x7eea, 0x504f, 0x7a7a, 0xff0c, 0x5efa, 0x8bae, 0x8c28, 0x614e,
      0x64cd, 0x4f5c]"

text \<open>
  The \<open>if\<close>/\<open>elif\<close>/\<open>else\<close> on the two counts. The source multiplies an integer count by
  the float \<open>1.5\<close> and compares an integer with the product; both are exact for counts
  below \<open>2 ^ 52\<close>, so the comparison is the one of the real numbers.
\<close>

definition sentiment_of_counts :: "nat \<Rightarrow> nat \<Rightarrow> pystr" where
  "sentiment_of_counts positive_count negative_count =
     (if real positive_count > real negative_count * 1.5 then bullish
      else if real negative_count > real positive_count * 1.5 then bearish
      else neutral)"

definition analyze_market_sentiment :: "hit list \<Rightarrow> pystr" where
  "analyze_market_sentiment data =
     (if data = [] then neutral
      else sentiment_of_counts (keyword_count positive_keywords data)
             (keyword_count negative_keywords data))"

subsection \<open>Python floats\<close>

text \<open>
  A Python float that is a number is modelled by its exact value, a rational. \<open>fl x\<close> is
  the double nearest to a non-negative \<open>x\<close>, ties going to the even significand: \<open>x\<close>
  is scaled by a power of two into the range of a 53-bit significand, rounded to a whole
  number and scaled back. Overflow and subnormal numbers are not modelled; the values
  here lie between \<open>1 / n\<close>, for a list of \<open>n\<close> items, and 1.
\<close>

definition round_half_even :: "rat \<Rightarrow> int" where
  "round_half_even y =
     (let f = \<lfloor>y\<rfloor>; r = y - of_int f
      in if r < 1 / 2 then f else if r > 1 / 2 then f + 1 else if even f then f else f + 1)"

definition pow2 :: "int \<Rightarrow> rat" where
  "pow2 e = (if 0 \<le> e then 2 ^ nat e else 1 / 2 ^ nat (- e))"

definition exponent :: "rat \<Rightarrow> int" where
  "exponent x =
     (let (a, b) = quotient_of x; d = bitlen a - bitlen b
      in if pow2 d \<le> x then d else d - 1)"

definition fl :: "rat \<Rightarrow> rat" where
  "fl x =
     (if x = 0 then 0
      else (let s = pow2 (52 - exponent x) in of_int (round_half_even (x * s)) / s))"

text \<open>
  \<open>a / b\<close> on two integers is the double nearest to the quotient, and raises for
  \<open>b = 0\<close>. \<open>round(x, 2)\<close> rounds the exact value of \<open>x\<close> to hundredths, ties going to
  the even hundredth, and gives the double nearest to the result.
\<close>

definition py_truediv :: "nat \<Rightarrow> nat \<Rightarrow> exn + rat" where
  "py_truediv a b =
     (if b = 0 then Inl (Exception ''ZeroDivisionError'' (ascii ''division by zero''))
      else Inr (fl (of_nat a / of_nat b)))"

definition py_round2 :: "rat \<Rightarrow> rat" where
  "py_round2 x = fl (of_int (round_half_even (x * 100)) / 100)"

subsection \<open>\<open>_calculate_sentiment_ratio\<close>\<close>

text \<open>
  \<open>keywords.get(sentiment, [])\<close>: three keywords for \<open>positive\<close> (lihao, shangzhang,
  tupo), three for \<open>negative\<close> (likong, xiadie, powei), none for any other string.
\<close>

definition ratio_keywords :: "pystr \<Rightarrow> pystr list" where
  "ratio_keywords sentiment =
     (if sentiment = ascii ''positive''
      then [[0x5229, 0x597d], [0x4e0a, 0x6da8], [0x7a81, 0x7834]]
      else if sentiment = ascii ''negative''
      then [[0x5229, 0x7a7a], [0x4e0b, 0x8dcc], [0x7834, 0x4f4d]]
      else [])"

definition calculate_sentiment_ratio :: "hit list \<Rightarrow> pystr \<Rightarrow> exn + rat" where
  "calculate_sentiment_ratio data sentiment =
     (if data = [] then Inr 0
      else
        (case py_truediv (keyword_count (ratio_keywords sentiment) data) (length data) of
           Inl e \<Rightarrow> Inl e
         | Inr q \<Rightarrow> Inr (py_round2 q)))"

section \<open>API routes\<close>

subsection \<open>\<open>execute_task\<close>\<close>

text \<open>
  The five bound methods of the analyzer the route dispatches to. Running one is outside
  this function: \<open>run\<close> gives its outcome, an exception or the artifact it returns.
\<close>

datatype routine =
    GeneratePreMarketStrategy
  | AnalyzeOpeningNews
  | AnalyzeDragonTigerList
  | AnalyzeNorthboundCapital
  | AnalyzeClosingSummary

definition tasks :: "(pystr \<times> routine) list" where
  "tasks =
     [(ascii ''pre_market'', GeneratePreMarketStrategy),
      (ascii ''opening_news'', AnalyzeOpeningNews),
      (ascii ''dragon_tiger'', AnalyzeDragonTigerList),
      (ascii ''northbound'', AnalyzeNorthboundCapital),
      (ascii ''closing'', AnalyzeClosingSummary)]"

text \<open>
  A response: the JSON body (\<open>success\<close>, and \<open>data\<close> or \<open>error\<close>) and the status code,
  which is 200 where the route returns the body alone.
\<close>

record 'a response =
  success :: bool
  resp_data :: "'a option"
  error :: "pystr option"
  status :: nat

text \<open>The prefix of the message for an unknown task: "weizhi renwu: ".\<close>

definition unknown_task :: pystr where
  "unknown_task = [0x672a, 0x77e5, 0x4efb, 0x52a1, 0x3a, 0x20]"

definition execute_task ::
  "(routine \<Rightarrow> 'd world \<Rightarrow> (exn + 'a) \<times> 'd world) \<Rightarrow> pystr \<Rightarrow> 'd world \<Rightarrow>
   'a response \<times> 'd world" where
  "execute_task run task_name w =
     (case map_of tasks task_name of
        None \<Rightarrow>
          (\<lparr>success = False, resp_data = None, error = Some (unknown_task @ task_name),
            status = 400\<rparr>, w)
      | Some r \<Rightarrow>
          (case run r w of
             (Inr result, w1) \<Rightarrow>
               (\<lparr>success = True, resp_data = Some result, error = None, status = 200\<rparr>, w1)
           | (Inl e, w1) \<Rightarrow>
               (\<lparr>success = False, resp_data = None, error = Some (exn_message e), status = 500\<rparr>,
                log_to ERROR (TaskFailed task_name e) w1)))"

subsection \<open>\<open>health_check\<close>\<close>

record health =
  health_status :: pystr
  timestamp :: pystr
  elasticsearch :: pystr

text \<open>
  The route returns the body alone, so the status code is 200. It has no handler of its
  own: an exception of \<open>es.ping()\<close> leaves it. The timestamp is read before the ping.
\<close>

definition health_check ::
  "(nat \<Rightarrow> pystr) \<Rightarrow> exn + bool \<Rightarrow> 'd world \<Rightarrow> (exn + health \<times> nat) \<times> 'd world" where
  "health_check clock ping w =
     (let (t, w1) = now_isoformat clock w
      in case ping of
           Inl e \<Rightarrow> (Inl e, w1)
         | Inr up \<Rightarrow>
             (Inr (\<lparr>health_status = ascii ''healthy'', timestamp = t,
                    elasticsearch = (if up then ascii ''connected'' else ascii ''disconnected'')\<rparr>,
                   200), w1))"

section \<open>FinanceDataSystem: scheduled jobs\<close>

text \<open>
  \<open>CronTrigger(hour=h, minute=m)\<close>; the hourly crawl gives the minute only.
\<close>

record cron_trigger =
  hour :: "nat option"
  minute :: "nat option"

datatype job_action = Analyze routine | CrawlSinaLive

record job =
  job_action :: job_action
  job_trigger :: cron_trigger
  job_id :: pystr
  job_name :: pystr

text \<open>
  The six \<open>add_job\<close> calls of \<open>_setup_scheduled_tasks\<close>, in source order. Each call gives
  the function, the trigger, \<open>id\<close> and \<open>name\<close> and nothing else. What the scheduler does
  with them is the scheduler library's, which is not part of the sources.
\<close>

definition scheduled_jobs :: "job list" where
  "scheduled_jobs =
     [\<lparr>job_action = Analyze GeneratePreMarketStrategy,
       job_trigger = \<lparr>hour = Some 8, minute = Some 0\<rparr>,
       job_id = ascii ''pre_market_strategy'',
       job_name = [0x76d8, 0x524d, 0x7b56, 0x7565, 0x751f, 0x6210]\<rparr>,
      \<lparr>job_action = Analyze AnalyzeOpeningNews,
       job_trigger = \<lparr>hour = Some 9, minute = Some 30\<rparr>,
       job_id = ascii ''opening_news'',
       job_name = [0x5f00, 0x76d8, 0x6d88, 0x606f, 0x9762, 0x603b, 0x7ed3]\<rparr>,
      \<lparr>job_action = Analyze AnalyzeDragonTigerList,
       job_trigger = \<lparr>hour = Some 10, minute = Some 0\<rparr>,
       job_id = ascii ''dragon_tiger_list'',
       job_name = [0x9f99, 0x864e, 0x699c, 0x5206, 0x6790]\<rparr>,
      \<lparr>job_action = Analyze AnalyzeNorthboundCapital,
       job_trigger = \<lparr>hour = Some 11, minute = Some 0\<rparr>,
       job_id = ascii ''northbound_capital'',
       job_name = [0x5317, 0x5411, 0x8d44, 0x91d1, 0x5206, 0x6790]\<rparr>,
      \<lparr>job_action = Analyze AnalyzeClosingSummary,
       job_trigger = \<lparr>hour = Some 15, minute = Some 0\<rparr>,
       job_id = ascii ''closing_summary'',
       job_name = [0x6536, 0x76d8, 0x7efc, 0x8ff0]\<rparr>,
      \<lparr>job_action = CrawlSinaLive,
       job_trigger = \<lparr>hour = None, minute = Some 0\<rparr>,
       job_id = ascii ''crawl_sina_hourly'',
       job_name = [0x65b0, 0x6d6a, 0x8d22, 0x7ecf, 0x6570, 0x636e, 0x6293, 0x53d6]\<rparr>]"

section \<open>Sample inputs\<close>

definition empty_world :: "'d world" where
  "empty_world = \<lparr>requests = [], logs = [], indices = [], ticks = 0\<rparr>"

definition timeout_error :: exn where
  "timeout_error = Exception ''ConnectionTimeout'' (ascii ''timed out'')"

definition first_call_fails :: fault_plan where
  "first_call_fails = (\<lambda>k. if k = 0 then Some timeout_error else None)"

definition sample_clock :: "nat \<Rightarrow> pystr" where
  "sample_clock k = ascii ''2024-01-02T09:30:0'' @ [48 + k]"

definition value_error :: exn where
  "value_error = Exception ''ValueError'' (ascii ''could not convert string to float'')"

definition sample_float :: "pystr \<Rightarrow> exn + rat" where
  "sample_float s =
     (if s = ascii ''1234.5'' then Inr (2469 / 2)
      else if s = ascii ''23.1'' then Inr (231 / 10)
      else Inl value_error)"

definition good_item :: bd_i where
  "good_item = \<lparr>bd_i_txt_c = Some sample_headline, bd_i_time = Some (ascii ''09:31:05'')\<rparr>"

definition broken_item :: bd_i where
  "broken_item = \<lparr>bd_i_txt_c = None, bd_i_time = Some (ascii ''09:32:10'')\<rparr>"

definition short_row :: "pystr list" where
  "short_row = map ascii [''688001'', ''Alpha'', ''12.5'', ''2024-01-02'', ''2024-01-10'']"

definition odd_row :: "pystr list" where
  "odd_row = map ascii [''688002'', ''Beta'', ''N/A'', ''2024-01-03'', ''2024-01-11'', ''23.1%'']"

definition priced_row :: "pystr list" where
  "priced_row =
     map ascii [''688003'', ''Gamma'', ''1,234.5'', ''2024-01-04'', ''2024-01-12'', ''--'', ''tech'']"

definition rising_item :: hit where
  "rising_item = [''content'' \<mapsto> [0x80a1, 0x4ef7, 0x4e0a, 0x6da8]]"

definition falling_item :: hit where
  "falling_item = [''content'' \<mapsto> [0x80a1, 0x4ef7, 0x4e0b, 0x8dcc]]"

definition sample_run :: "routine \<Rightarrow> 'd world \<Rightarrow> (exn + pystr) \<times> 'd world" where
  "sample_run r w =
     (if r = AnalyzeOpeningNews then (Inl timeout_error, w) else (Inr (ascii ''artifact''), w))"

definition quiet_item :: hit where
  "quiet_item = [''content'' \<mapsto> [0x884c, 0x60c5, 0x5e73, 0x7a33]]"


section \<open>Properties\<close>

lemma py_in_iff_sublist: "py_in kw s \<longleftrightarrow> sublist kw s"
  by (induction s) (auto simp: sublist_Cons_right)

lemma py_in_iff: "py_in kw s \<longleftrightarrow> (\<exists>pre suf. s = pre @ kw @ suf)"
  by (simp add: py_in_iff_sublist sublist_def)

text \<open>
  C8. For every content string, tag extraction returns exactly the keywords of the fixed
  eight-word vocabulary that occur as substrings of the content, in vocabulary order; the
  sample headline yields exactly lihao and chongzu.
\<close>

theorem extract_tags_exact:
  "extract_tags txt = filter (\<lambda>kw. \<exists>pre suf. txt = pre @ kw @ suf) tag_keywords
   \<and> set (extract_tags txt) =
       {kw. kw \<in> set tag_keywords \<and> (\<exists>pre suf. txt = pre @ kw @ suf)}
   \<and> length tag_keywords = 8
   \<and> extract_tags sample_headline = [[0x5229, 0x597d], [0x91cd, 0x7ec4]]"
proof -
  have a: "extract_tags txt =
             filter (\<lambda>kw. \<exists>pre suf. txt = pre @ kw @ suf) tag_keywords"
    by (simp add: extract_tags_def py_in_iff)
  have b: "set (extract_tags txt) =
             {kw. kw \<in> set tag_keywords \<and> (\<exists>pre suf. txt = pre @ kw @ suf)}"
    unfolding a by auto
  have c: "length tag_keywords = 8"
    by (simp add: tag_keywords_def)
  have d: "extract_tags sample_headline = [[0x5229, 0x597d], [0x91cd, 0x7ec4]]"
    by (simp add: extract_tags_def tag_keywords_def sample_headline_def)
  from a b c d show ?thesis by blast
qed

lemma send_simps:
  "requests (send r w) = requests w @ [r]" "logs (send r w) = logs w"
  "indices (send r w) = indices w" "ticks (send r w) = ticks w"
  by (simp_all add: send_def)

lemma log_to_simps:
  "requests (log_to l ev w) = requests w" "logs (log_to l ev w) = logs w @ [(l, ev)]"
  "indices (log_to l ev w) = indices w" "ticks (log_to l ev w) = ticks w"
  by (simp_all add: log_to_def)

lemma create_index_indices:
  "indices (create_index no_faults d w) =
     (if fst d \<in> set (map fst (indices w)) then indices w else indices w @ [d])"
  by (simp add: create_index_def es_indices_exists_def es_indices_create_def no_faults_def
      send_simps log_to_simps)

lemma loop_indices_present:
  "set (map fst ds) \<subseteq> set (map fst (indices w)) \<Longrightarrow>
   indices (create_indices_loop no_faults ds w) = indices w"
  by (induction ds arbitrary: w) (simp_all add: create_index_indices)

lemma loop_names:
  "set (map fst (indices (create_indices_loop no_faults ds w))) =
     set (map fst (indices w)) \<union> set (map fst ds)"
  by (induction ds arbitrary: w) (auto simp: create_index_indices)

lemma loop_from_empty:
  "distinct (map fst ds) \<Longrightarrow> set (map fst ds) \<inter> set (map fst (indices w)) = {} \<Longrightarrow>
   indices (create_indices_loop no_faults ds w) = indices w @ ds"
  by (induction ds arbitrary: w) (auto simp: create_index_indices)

lemma distinct_defs: "distinct (map fst index_definitions)"
  by (simp add: index_definitions_def ascii_def)

lemma create_index_logs:
  "\<exists>l ev. logs (create_index faults d w) = logs w @ [(l, ev)] \<and> log_index (l, ev) = fst d"
  by (auto simp: create_index_def es_indices_exists_def es_indices_create_def
      send_simps log_to_simps split: option.splits bool.splits)

lemma loop_logs:
  "\<exists>L. logs (create_indices_loop faults ds w) = logs w @ L \<and> map log_index L = map fst ds"
proof (induction ds arbitrary: w)
  case Nil
  show ?case by simp
next
  case (Cons d ds)
  obtain l ev where s: "logs (create_index faults d w) = logs w @ [(l, ev)]"
    and n: "log_index (l, ev) = fst d"
    using create_index_logs by blast
  obtain L where L: "logs (create_indices_loop faults ds (create_index faults d w)) =
      logs (create_index faults d w) @ L" and m: "map log_index L = map fst ds"
    using Cons.IH by blast
  have "logs (create_indices_loop faults (d # ds) w) = logs w @ ((l, ev) # L)"
    using s L by simp
  moreover have "map log_index ((l, ev) # L) = map fst (d # ds)"
    using n m by simp
  ultimately show ?case by blast
qed

lemma loop_logs_present:
  "set (map fst ds) \<subseteq> set (map fst (indices w)) \<Longrightarrow>
   logs (create_indices_loop no_faults ds w) =
     logs w @ map (\<lambda>d. (INFO, IndexAlreadyExists (fst d))) ds"
proof (induction ds arbitrary: w)
  case Nil
  show ?case by simp
next
  case (Cons d ds)
  have ex: "fst d \<in> set (map fst (indices w))" using Cons.prems by simp
  have st: "create_index no_faults d w = log_to INFO (IndexAlreadyExists (fst d)) (send (EsExists (fst d)) w)"
    using ex by (simp add: create_index_def es_indices_exists_def no_faults_def)
  have "set (map fst ds) \<subseteq> set (map fst (indices (create_index no_faults d w)))"
    using Cons.prems by (simp add: st log_to_simps send_simps)
  from Cons.IH [OF this] show ?case
    by (simp add: st log_to_simps send_simps)
qed

lemma create_index_exists_fault:
  "faults (length (requests w)) = Some e \<Longrightarrow>
   create_index faults d w = log_to ERROR (IndexCreateFailed (fst d) e) (send (EsExists (fst d)) w)"
  by (simp add: create_index_def es_indices_exists_def)

lemma create_index_create_fault:
  "faults (length (requests w)) = None \<Longrightarrow> fst d \<notin> set (map fst (indices w)) \<Longrightarrow>
   faults (Suc (length (requests w))) = Some e \<Longrightarrow>
   create_index faults d w =
     log_to ERROR (IndexCreateFailed (fst d) e)
       (send (EsCreate (fst d) (snd d)) (send (EsExists (fst d)) w))"
  by (simp add: create_index_def es_indices_exists_def es_indices_create_def send_simps)

text \<open>
  C2. Run without faults, \<open>_create_indices\<close> run a second time leaves the indices of the
  first run as they are and only logs that each of the five exists; after one run the
  store holds its former indices and the five definitions (exactly the five, from an
  empty store). Whatever the faults, the run returns and writes one log record per
  definition, in order; a call that raises is logged at level ERROR for its index and
  leaves the store unchanged.
\<close>

theorem create_indices_idempotent:
  "indices (create_indices no_faults (create_indices no_faults w)) =
     indices (create_indices no_faults w)
   \<and> logs (create_indices no_faults (create_indices no_faults w)) =
       logs (create_indices no_faults w) @
       map (\<lambda>d. (INFO, IndexAlreadyExists (fst d))) index_definitions
   \<and> set (map fst (indices (create_indices no_faults w))) =
       set (map fst (indices w)) \<union> set (map fst index_definitions)
   \<and> indices (create_indices no_faults (w\<lparr>indices := []\<rparr>)) = index_definitions
   \<and> length index_definitions = 5 \<and> distinct (map fst index_definitions)
   \<and> (\<exists>L. logs (create_indices faults w) = logs w @ L
          \<and> map log_index L = map fst index_definitions)
   \<and> (\<forall>e. faults (length (requests w)) = Some e \<longrightarrow>
          logs (create_index faults d w) = logs w @ [(ERROR, IndexCreateFailed (fst d) e)]
          \<and> indices (create_index faults d w) = indices w)
   \<and> (\<forall>e. faults (length (requests w)) = None \<and> fst d \<notin> set (map fst (indices w))
            \<and> faults (Suc (length (requests w))) = Some e \<longrightarrow>
          logs (create_index faults d w) = logs w @ [(ERROR, IndexCreateFailed (fst d) e)]
          \<and> indices (create_index faults d w) = indices w)"
proof -
  let ?w1 = "create_indices no_faults w"
  have names: "set (map fst (indices ?w1)) =
      set (map fst (indices w)) \<union> set (map fst index_definitions)"
    unfolding create_indices_def by (rule loop_names)
  then have sub: "set (map fst index_definitions) \<subseteq> set (map fst (indices ?w1))"
    by blast
  have a: "indices (create_indices no_faults ?w1) = indices ?w1"
    unfolding create_indices_def [of no_faults ?w1] using sub by (rule loop_indices_present)
  have b: "logs (create_indices no_faults ?w1) =
      logs ?w1 @ map (\<lambda>d. (INFO, IndexAlreadyExists (fst d))) index_definitions"
    unfolding create_indices_def [of no_faults ?w1] using sub by (rule loop_logs_present)
  have c: "indices (create_indices no_faults (w\<lparr>indices := []\<rparr>)) = index_definitions"
    unfolding create_indices_def using loop_from_empty [OF distinct_defs, of "w\<lparr>indices := []\<rparr>"]
    by simp
  have d: "length index_definitions = 5"
    by (simp add: index_definitions_def)
  have e: "\<exists>L. logs (create_indices faults w) = logs w @ L
          \<and> map log_index L = map fst index_definitions"
    unfolding create_indices_def by (rule loop_logs)
  have f: "\<forall>e. faults (length (requests w)) = Some e \<longrightarrow>
          logs (create_index faults d w) = logs w @ [(ERROR, IndexCreateFailed (fst d) e)]
          \<and> indices (create_index faults d w) = indices w"
    by (simp add: create_index_exists_fault log_to_simps send_simps)
  have g: "\<forall>e. faults (length (requests w)) = None \<and> fst d \<notin> set (map fst (indices w))
            \<and> faults (Suc (length (requests w))) = Some e \<longrightarrow>
          logs (create_index faults d w) = logs w @ [(ERROR, IndexCreateFailed (fst d) e)]
          \<and> indices (create_index faults d w) = indices w"
    by (auto simp: create_index_create_fault log_to_simps send_simps simp del: set_map)
  from a b names c d distinct_defs e f g show ?thesis by blast
qed

theorem create_indices_idempotent_witness:
  "first_call_fails (length (requests (empty_world :: unit world))) = Some timeout_error
   \<and> logs (create_index first_call_fails (hd index_definitions) (empty_world :: unit world)) =
       [(ERROR, IndexCreateFailed (ascii ''sina_live_data'') timeout_error)]
   \<and> map fst (indices (create_indices first_call_fails (empty_world :: unit world))) =
       tl (map fst index_definitions)
   \<and> map fst (logs (create_indices first_call_fails (empty_world :: unit world))) =
       [ERROR, INFO, INFO, INFO, INFO]"
proof -
  have h: "first_call_fails (length (requests (empty_world :: unit world))) = Some timeout_error"
    by (simp add: first_call_fails_def empty_world_def)
  have "logs (create_index first_call_fails (hd index_definitions) (empty_world :: unit world)) =
       logs (empty_world :: unit world) @
         [(ERROR, IndexCreateFailed (fst (hd index_definitions)) timeout_error)]"
    using h create_indices_idempotent
      [of "empty_world :: unit world" first_call_fails "hd index_definitions"]
    by blast
  then have l: "logs (create_index first_call_fails (hd index_definitions) (empty_world :: unit world)) =
       [(ERROR, IndexCreateFailed (ascii ''sina_live_data'') timeout_error)]"
    by (simp add: empty_world_def index_definitions_def)
  have r: "map fst (indices (create_indices first_call_fails (empty_world :: unit world))) =
       tl (map fst index_definitions)
     \<and> map fst (logs (create_indices first_call_fails (empty_world :: unit world))) =
       [ERROR, INFO, INFO, INFO, INFO]"
    by (simp add: create_indices_def index_definitions_def create_index_def
        es_indices_exists_def es_indices_create_def first_call_fails_def empty_world_def
        send_def log_to_def ascii_def)
  from h l r show ?thesis by blast
qed






lemma now_simps:
  "requests (snd (now_isoformat clock w)) = requests w"
  "logs (snd (now_isoformat clock w)) = logs w"
  "indices (snd (now_isoformat clock w)) = indices w"
  "fst (now_isoformat clock w) = clock (ticks w)"
  "ticks (snd (now_isoformat clock w)) = Suc (ticks w)"
  by (simp_all add: now_isoformat_def)

lemma parse_sina_item_cases:
  "(sina_text item = None \<and> parse_sina_item clock item w = (Inl attribute_error, w))
   \<or> (\<exists>t d w1. sina_text item = Some t \<and> parse_sina_item clock item w = (Inr d, w1)
        \<and> untimed d = sina_document t \<and> requests w1 = requests w)"
  by (auto simp: parse_sina_item_def sina_text_def now_isoformat_def untimed_def
      sina_document_def split: option.splits)

lemma sina_loop_result:
  "map untimed (fst (sina_loop clock items acc w)) =
     map untimed acc @ map sina_document (List.map_filter sina_text items)
   \<and> requests (snd (sina_loop clock items acc w)) = requests w"
proof (induction items arbitrary: acc w)
  case Nil
  show ?case by (simp add: List.map_filter_simps)
next
  case (Cons item items)
  from parse_sina_item_cases [of item clock w] show ?case
  proof
    assume a: "sina_text item = None \<and> parse_sina_item clock item w = (Inl attribute_error, w)"
    with Cons.IH show ?thesis
      by (simp add: List.map_filter_simps log_to_simps)
  next
    assume "\<exists>t d w1. sina_text item = Some t \<and> parse_sina_item clock item w = (Inr d, w1)
        \<and> untimed d = sina_document t \<and> requests w1 = requests w"
    then obtain t d w1 where t: "sina_text item = Some t"
      and p: "parse_sina_item clock item w = (Inr d, w1)" and c: "untimed d = sina_document t"
      and r: "requests w1 = requests w"
      by blast
    with Cons.IH [of "acc @ [d]" w1] show ?thesis
      by (simp add: List.map_filter_simps)
  qed
qed

lemma crawl_sina_fetch_failure:
  "crawl_sina_live clock (Inl e) outcome w =
     ([], log_to ERROR (CrawlFailed sina_index e)
            (send (HttpGet sina_url) (log_to INFO (CrawlStarted sina_index) w)))"
  by (simp add: crawl_sina_live_def)

lemma crawl_sina_result:
  "map untimed (fst (crawl_sina_live clock (Inr found) outcome w)) =
     map sina_document (List.map_filter sina_text (take 20 found))"
  using sina_loop_result [of clock "take 20 found" "[]"
      "send (HttpGet sina_url) (log_to INFO (CrawlStarted sina_index) w)"]
  by (simp add: crawl_sina_live_def Let_def case_prod_beta)

lemma bulk_insert_requests:
  "requests (snd (bulk_insert outcome index documents w)) =
     (if documents = [] then requests w
      else requests w @ [EsBulk (map (\<lambda>doc. (index, doc)) documents)])"
  by (cases outcome) (auto simp: bulk_insert_def Let_def send_simps log_to_simps)

lemma crawl_sina_requests:
  "requests (snd (crawl_sina_live clock (Inr found) outcome w)) =
     (let data_list = fst (crawl_sina_live clock (Inr found) outcome w)
      in if data_list = [] then requests w @ [HttpGet sina_url]
         else requests w @ [HttpGet sina_url, EsBulk (map (\<lambda>doc. (sina_index, doc)) data_list)])"
  using sina_loop_result [of clock "take 20 found" "[]"
      "send (HttpGet sina_url) (log_to INFO (CrawlStarted sina_index) w)"]
  by (simp add: crawl_sina_live_def Let_def case_prod_beta bulk_insert_requests send_simps
      log_to_simps)

lemma parse_newstock_row_cases:
  "(length cols < 6 \<and> parse_newstock_row pyfloat clock cols w = (None, w))
   \<or> (6 \<le> length cols \<and>
       (\<exists>d w1. parse_newstock_row pyfloat clock cols w = (Some d, w1)
          \<and> undated d = newstock_document pyfloat cols \<and> requests w1 = requests w))"
  by (auto simp: parse_newstock_row_def now_isoformat_def undated_def newstock_document_def)

lemma newstock_loop_result:
  "map undated (fst (newstock_loop pyfloat clock rows acc w)) =
     map undated acc @ map (newstock_document pyfloat) (filter (\<lambda>cols. 6 \<le> length cols) rows)
   \<and> requests (snd (newstock_loop pyfloat clock rows acc w)) = requests w"
proof (induction rows arbitrary: acc w)
  case Nil
  show ?case by simp
next
  case (Cons cols rows)
  from parse_newstock_row_cases [of cols pyfloat clock w] show ?case
  proof
    assume "length cols < 6 \<and> parse_newstock_row pyfloat clock cols w = (None, w)"
    with Cons.IH show ?thesis by simp
  next
    assume "6 \<le> length cols \<and>
       (\<exists>d w1. parse_newstock_row pyfloat clock cols w = (Some d, w1)
          \<and> undated d = newstock_document pyfloat cols \<and> requests w1 = requests w)"
    then obtain d w1 where l: "6 \<le> length cols"
      and p: "parse_newstock_row pyfloat clock cols w = (Some d, w1)"
      and u: "undated d = newstock_document pyfloat cols" and r: "requests w1 = requests w"
      by blast
    with Cons.IH [of "acc @ [d]" w1] show ?thesis by simp
  qed
qed

lemma crawl_newstock_fetch_failure:
  "crawl_eastmoney_newstock pyfloat clock (Inl e) outcome w =
     ([], log_to ERROR (CrawlFailed newstock_index e)
            (send (HttpGet newstock_url) (log_to INFO (CrawlStarted newstock_index) w)))"
  by (simp add: crawl_eastmoney_newstock_def)

lemma crawl_newstock_result:
  "map undated (fst (crawl_eastmoney_newstock pyfloat clock (Inr found) outcome w)) =
     map (newstock_document pyfloat) (filter (\<lambda>cols. 6 \<le> length cols) (take 10 found))"
  using newstock_loop_result [of pyfloat clock "take 10 found" "[]"
      "send (HttpGet newstock_url) (log_to INFO (CrawlStarted newstock_index) w)"]
  by (simp add: crawl_eastmoney_newstock_def Let_def case_prod_beta)

lemma crawl_newstock_requests:
  "requests (snd (crawl_eastmoney_newstock pyfloat clock (Inr found) outcome w)) =
     (let data_list = fst (crawl_eastmoney_newstock pyfloat clock (Inr found) outcome w)
      in if data_list = [] then requests w @ [HttpGet newstock_url]
         else requests w @
           [HttpGet newstock_url, EsBulk (map (\<lambda>doc. (newstock_index, doc)) data_list)])"
  using newstock_loop_result [of pyfloat clock "take 10 found" "[]"
      "send (HttpGet newstock_url) (log_to INFO (CrawlStarted newstock_index) w)"]
  by (simp add: crawl_eastmoney_newstock_def Let_def case_prod_beta bulk_insert_requests
      send_simps log_to_simps)

lemma parse_article_requests:
  "requests (snd (parse_article clock ind a w)) = requests w"
  by (simp add: parse_article_def now_isoformat_def Let_def)

lemma industry_loop_result:
  "length (fst (industry_loop clock ind as acc w)) = length acc + length as
   \<and> requests (snd (industry_loop clock ind as acc w)) = requests w"
proof (induction as arbitrary: acc w)
  case Nil
  show ?case by simp
next
  case (Cons a as)
  obtain d w1 where p: "parse_article clock ind a w = (d, w1)"
    by (cases "parse_article clock ind a w")
  with parse_article_requests [of clock ind a w] have "requests w1 = requests w" by simp
  with p Cons.IH [of "acc @ [d]" w1] show ?case by simp
qed

lemma crawl_industry_fetch_failure:
  "crawl_eastmoney_industry clock ind (Inl e) outcome w =
     ([], log_to ERROR (CrawlFailed ind e)
            (send (HttpGet (industry_url ind)) (log_to INFO (CrawlStarted ind) w)))"
  by (simp add: crawl_eastmoney_industry_def)

lemma crawl_industry_result:
  "length (fst (crawl_eastmoney_industry clock ind (Inr found) outcome w)) =
     min 10 (length found)"
  using industry_loop_result [of clock ind "take 10 found" "[]"
      "send (HttpGet (industry_url ind)) (log_to INFO (CrawlStarted ind) w)"]
  by (simp add: crawl_eastmoney_industry_def Let_def case_prod_beta min.commute)

lemma crawl_industry_requests:
  "requests (snd (crawl_eastmoney_industry clock ind (Inr found) outcome w)) =
     (let data_list = fst (crawl_eastmoney_industry clock ind (Inr found) outcome w)
      in if data_list = [] then requests w @ [HttpGet (industry_url ind)]
         else requests w @
           [HttpGet (industry_url ind), EsBulk (map (\<lambda>doc. (industry_index, doc)) data_list)])"
  using industry_loop_result [of clock ind "take 10 found" "[]"
      "send (HttpGet (industry_url ind)) (log_to INFO (CrawlStarted ind) w)"]
  by (simp add: crawl_eastmoney_industry_def Let_def case_prod_beta bulk_insert_requests
      send_simps log_to_simps)

text \<open>
  C5. For each of the three adapters: when the page fetch raises, the crawl returns the
  empty list and makes no bulk call; otherwise it returns one document for every
  well-formed element among those it looks at (the first 20, or 10), in order, whatever
  malformed elements lie between them; and when no element is well-formed it returns
  the empty list and the page fetch is the only call it makes.
\<close>

theorem crawl_isolates_failures:
  "fst (crawl_sina_live clock (Inl e) outcome w1) = []
   \<and> requests (snd (crawl_sina_live clock (Inl e) outcome w1)) =
       requests w1 @ [HttpGet sina_url]
   \<and> map untimed (fst (crawl_sina_live clock (Inr items) outcome w1)) =
       map sina_document (List.map_filter sina_text (take 20 items))
   \<and> (List.map_filter sina_text (take 20 items) = [] \<longrightarrow>
        fst (crawl_sina_live clock (Inr items) outcome w1) = []
        \<and> requests (snd (crawl_sina_live clock (Inr items) outcome w1)) =
            requests w1 @ [HttpGet sina_url])
   \<and> fst (crawl_eastmoney_newstock pyfloat clock (Inl e) outcome w2) = []
   \<and> requests (snd (crawl_eastmoney_newstock pyfloat clock (Inl e) outcome w2)) =
       requests w2 @ [HttpGet newstock_url]
   \<and> map undated (fst (crawl_eastmoney_newstock pyfloat clock (Inr rows) outcome w2)) =
       map (newstock_document pyfloat) (filter (\<lambda>cols. 6 \<le> length cols) (take 10 rows))
   \<and> (filter (\<lambda>cols. 6 \<le> length cols) (take 10 rows) = [] \<longrightarrow>
        fst (crawl_eastmoney_newstock pyfloat clock (Inr rows) outcome w2) = []
        \<and> requests (snd (crawl_eastmoney_newstock pyfloat clock (Inr rows) outcome w2)) =
            requests w2 @ [HttpGet newstock_url])
   \<and> fst (crawl_eastmoney_industry clock ind (Inl e) outcome w3) = []
   \<and> requests (snd (crawl_eastmoney_industry clock ind (Inl e) outcome w3)) =
       requests w3 @ [HttpGet (industry_url ind)]
   \<and> length (fst (crawl_eastmoney_industry clock ind (Inr articles) outcome w3)) =
       min 10 (length articles)
   \<and> (articles = [] \<longrightarrow>
        fst (crawl_eastmoney_industry clock ind (Inr articles) outcome w3) = []
        \<and> requests (snd (crawl_eastmoney_industry clock ind (Inr articles) outcome w3)) =
            requests w3 @ [HttpGet (industry_url ind)])"
proof -
  have s1: "fst (crawl_sina_live clock (Inl e) outcome w1) = []
     \<and> requests (snd (crawl_sina_live clock (Inl e) outcome w1)) =
         requests w1 @ [HttpGet sina_url]"
    by (simp add: crawl_sina_fetch_failure send_simps log_to_simps)
  note s2 = crawl_sina_result [of clock items outcome w1]
  have s3: "List.map_filter sina_text (take 20 items) = [] \<longrightarrow>
        fst (crawl_sina_live clock (Inr items) outcome w1) = []
        \<and> requests (snd (crawl_sina_live clock (Inr items) outcome w1)) =
            requests w1 @ [HttpGet sina_url]"
  proof
    assume "List.map_filter sina_text (take 20 items) = []"
    with s2 have "fst (crawl_sina_live clock (Inr items) outcome w1) = []" by simp
    with crawl_sina_requests [of clock items outcome w1]
    show "fst (crawl_sina_live clock (Inr items) outcome w1) = []
        \<and> requests (snd (crawl_sina_live clock (Inr items) outcome w1)) =
            requests w1 @ [HttpGet sina_url]"
      by (simp add: Let_def)
  qed
  have n1: "fst (crawl_eastmoney_newstock pyfloat clock (Inl e) outcome w2) = []
     \<and> requests (snd (crawl_eastmoney_newstock pyfloat clock (Inl e) outcome w2)) =
         requests w2 @ [HttpGet newstock_url]"
    by (simp add: crawl_newstock_fetch_failure send_simps log_to_simps)
  note n2 = crawl_newstock_result [of pyfloat clock rows outcome w2]
  have n3: "filter (\<lambda>cols. 6 \<le> length cols) (take 10 rows) = [] \<longrightarrow>
        fst (crawl_eastmoney_newstock pyfloat clock (Inr rows) outcome w2) = []
        \<and> requests (snd (crawl_eastmoney_newstock pyfloat clock (Inr rows) outcome w2)) =
            requests w2 @ [HttpGet newstock_url]"
  proof
    assume "filter (\<lambda>cols. 6 \<le> length cols) (take 10 rows) = []"
    with n2 have "fst (crawl_eastmoney_newstock pyfloat clock (Inr rows) outcome w2) = []"
      by simp
    with crawl_newstock_requests [of pyfloat clock rows outcome w2]
    show "fst (crawl_eastmoney_newstock pyfloat clock (Inr rows) outcome w2) = []
        \<and> requests (snd (crawl_eastmoney_newstock pyfloat clock (Inr rows) outcome w2)) =
            requests w2 @ [HttpGet newstock_url]"
      by (simp add: Let_def)
  qed
  have i1: "fst (crawl_eastmoney_industry clock ind (Inl e) outcome w3) = []
     \<and> requests (snd (crawl_eastmoney_industry clock ind (Inl e) outcome w3)) =
         requests w3 @ [HttpGet (industry_url ind)]"
    by (simp add: crawl_industry_fetch_failure send_simps log_to_simps)
  note i2 = crawl_industry_result [of clock ind articles outcome w3]
  have i3: "articles = [] \<longrightarrow>
        fst (crawl_eastmoney_industry clock ind (Inr articles) outcome w3) = []
        \<and> requests (snd (crawl_eastmoney_industry clock ind (Inr articles) outcome w3)) =
            requests w3 @ [HttpGet (industry_url ind)]"
  proof
    assume "articles = []"
    with i2 have "fst (crawl_eastmoney_industry clock ind (Inr articles) outcome w3) = []"
      by simp
    with crawl_industry_requests [of clock ind articles outcome w3]
    show "fst (crawl_eastmoney_industry clock ind (Inr articles) outcome w3) = []
        \<and> requests (snd (crawl_eastmoney_industry clock ind (Inr articles) outcome w3)) =
            requests w3 @ [HttpGet (industry_url ind)]"
      by (simp add: Let_def)
  qed
  from s1 s2 s3 n1 n2 n3 i1 i2 i3 show ?thesis by blast
qed

lemma requests_empty_world: "requests empty_world = []"
  by (simp add: empty_world_def)

theorem crawl_isolates_failures_witness:
  "List.map_filter sina_text (take 20 [broken_item]) = []
   \<and> fst (crawl_sina_live sample_clock (Inr [broken_item]) (Inl timeout_error) empty_world) = []
   \<and> requests (snd (crawl_sina_live sample_clock (Inr [broken_item]) (Inl timeout_error)
        empty_world)) = [HttpGet sina_url]
   \<and> map untimed (fst (crawl_sina_live sample_clock (Inr [good_item, broken_item, good_item])
        (Inl timeout_error) empty_world)) =
       [sina_document sample_headline, sina_document sample_headline]
   \<and> filter (\<lambda>cols. 6 \<le> length cols) (take 10 [short_row]) = []
   \<and> fst (crawl_eastmoney_newstock sample_float sample_clock (Inr [short_row])
        (Inl timeout_error) empty_world) = []
   \<and> requests (snd (crawl_eastmoney_newstock sample_float sample_clock (Inr [short_row])
        (Inl timeout_error) empty_world)) = [HttpGet newstock_url]
   \<and> fst (crawl_eastmoney_industry sample_clock (ascii ''tech'') (Inr []) (Inl timeout_error)
        empty_world) = []
   \<and> requests (snd (crawl_eastmoney_industry sample_clock (ascii ''tech'') (Inr [])
        (Inl timeout_error) empty_world)) = [HttpGet (industry_url (ascii ''tech''))]"
proof -
  have h1: "List.map_filter sina_text (take 20 [broken_item]) = []"
    by (simp add: List.map_filter_simps sina_text_def broken_item_def)
  have h2: "filter (\<lambda>cols. 6 \<le> length cols) (take 10 [short_row]) = []"
    by (simp add: short_row_def)
  have m: "List.map_filter sina_text (take 20 [good_item, broken_item, good_item]) =
      [sample_headline, sample_headline]"
    by (simp add: List.map_filter_simps sina_text_def broken_item_def good_item_def)
  have mixed: "map untimed (fst (crawl_sina_live sample_clock
        (Inr [good_item, broken_item, good_item]) (Inl timeout_error) empty_world)) =
       [sina_document sample_headline, sina_document sample_headline]"
    using m crawl_isolates_failures
      [where clock = sample_clock and outcome = "Inl timeout_error" and ?w1.0 = empty_world
        and items = "[good_item, broken_item, good_item]" and pyfloat = sample_float
        and ?w2.0 = empty_world and rows = "[]" and ind = "ascii ''tech''"
        and ?w3.0 = empty_world and articles = "[]" and e = timeout_error]
    by simp
  from h1 h2 crawl_isolates_failures
    [where clock = sample_clock and outcome = "Inl timeout_error" and ?w1.0 = empty_world
      and items = "[broken_item]" and pyfloat = sample_float and ?w2.0 = empty_world
      and rows = "[short_row]" and ind = "ascii ''tech''" and ?w3.0 = empty_world
      and articles = "[]" and e = timeout_error]
  have rest: "fst (crawl_sina_live sample_clock (Inr [broken_item]) (Inl timeout_error)
        empty_world) = []
   \<and> requests (snd (crawl_sina_live sample_clock (Inr [broken_item]) (Inl timeout_error)
        empty_world)) = [HttpGet sina_url]
   \<and> fst (crawl_eastmoney_newstock sample_float sample_clock (Inr [short_row])
        (Inl timeout_error) empty_world) = []
   \<and> requests (snd (crawl_eastmoney_newstock sample_float sample_clock (Inr [short_row])
        (Inl timeout_error) empty_world)) = [HttpGet newstock_url]
   \<and> fst (crawl_eastmoney_industry sample_clock (ascii ''tech'') (Inr []) (Inl timeout_error)
        empty_world) = []
   \<and> requests (snd (crawl_eastmoney_industry sample_clock (ascii ''tech'') (Inr [])
        (Inl timeout_error) empty_world)) = [HttpGet (industry_url (ascii ''tech''))]"
    by (simp add: requests_empty_world)
  from h1 h2 mixed rest show ?thesis by blast
qed

lemma parse_float_eq:
  "parse_float pyfloat v =
     (case pyfloat (filter (\<lambda>c. c \<noteq> 0x2c \<and> c \<noteq> 0x25) v) of Inr x \<Rightarrow> x | Inl e \<Rightarrow> 0)"
  by (simp add: parse_float_def remove_char_def conj_commute)

lemma undated_fields:
  "issue_price (undated d) = issue_price d" "pe_ratio (undated d) = pe_ratio d"
  "stock_code (undated d) = stock_code d"
  by (simp_all add: undated_def)

lemma newstock_document_fields:
  "issue_price (newstock_document pyfloat cols) = parse_float pyfloat (cols ! 2)"
  "pe_ratio (newstock_document pyfloat cols) = parse_float pyfloat (cols ! 5)"
  "stock_code (newstock_document pyfloat cols) = cols ! 0"
  by (simp_all add: newstock_document_def)

lemma crawl_newstock_prices:
  "map issue_price (fst (crawl_eastmoney_newstock pyfloat clock (Inr found) outcome w)) =
     map (\<lambda>cols. parse_float pyfloat (cols ! 2))
       (filter (\<lambda>cols. 6 \<le> length cols) (take 10 found))
   \<and> map pe_ratio (fst (crawl_eastmoney_newstock pyfloat clock (Inr found) outcome w)) =
     map (\<lambda>cols. parse_float pyfloat (cols ! 5))
       (filter (\<lambda>cols. 6 \<le> length cols) (take 10 found))"
proof -
  let ?r = "fst (crawl_eastmoney_newstock pyfloat clock (Inr found) outcome w)"
  let ?f = "filter (\<lambda>cols. 6 \<le> length cols) (take 10 found)"
  have u: "map undated ?r = map (newstock_document pyfloat) ?f"
    by (rule crawl_newstock_result)
  have "map issue_price ?r = map issue_price (map undated ?r)"
    by (simp add: undated_fields)
  also have "\<dots> = map (\<lambda>cols. parse_float pyfloat (cols ! 2)) ?f"
    unfolding u by (simp add: newstock_document_fields)
  finally have a: "map issue_price ?r = map (\<lambda>cols. parse_float pyfloat (cols ! 2)) ?f" .
  have "map pe_ratio ?r = map pe_ratio (map undated ?r)"
    by (simp add: undated_fields)
  also have "\<dots> = map (\<lambda>cols. parse_float pyfloat (cols ! 5)) ?f"
    unfolding u by (simp add: newstock_document_fields)
  finally have b: "map pe_ratio ?r = map (\<lambda>cols. parse_float pyfloat (cols ! 5)) ?f" .
  from a b show ?thesis by blast
qed

text \<open>
  C7. A row with fewer than six cells gives no document and changes nothing; a row with
  six or more gives one document whose price and PE fields are \<open>_parse_float\<close> of the
  third and sixth cell, and so do the rows of a whole crawl. \<open>_parse_float\<close> deletes every
  comma and percent sign, then gives the number Python's \<open>float\<close> gives, and \<open>0.0\<close> when
  \<open>float\<close> raises: it returns for every string.
\<close>

theorem newstock_rows_and_parse_float:
  "(length cols < 6 \<longrightarrow> parse_newstock_row pyfloat clock cols w = (None, w))
   \<and> (6 \<le> length cols \<longrightarrow>
        (\<exists>d w1. parse_newstock_row pyfloat clock cols w = (Some d, w1)
           \<and> issue_price d = parse_float pyfloat (cols ! 2)
           \<and> pe_ratio d = parse_float pyfloat (cols ! 5)))
   \<and> map issue_price (fst (crawl_eastmoney_newstock pyfloat clock (Inr found) outcome w')) =
       map (\<lambda>cols. parse_float pyfloat (cols ! 2))
         (filter (\<lambda>cols. 6 \<le> length cols) (take 10 found))
   \<and> map pe_ratio (fst (crawl_eastmoney_newstock pyfloat clock (Inr found) outcome w')) =
       map (\<lambda>cols. parse_float pyfloat (cols ! 5))
         (filter (\<lambda>cols. 6 \<le> length cols) (take 10 found))
   \<and> parse_float pyfloat v =
       (case pyfloat (filter (\<lambda>c. c \<noteq> 0x2c \<and> c \<noteq> 0x25) v) of Inr x \<Rightarrow> x | Inl e \<Rightarrow> 0)
   \<and> (\<forall>e. pyfloat (filter (\<lambda>c. c \<noteq> 0x2c \<and> c \<noteq> 0x25) v) = Inl e \<longrightarrow>
          parse_float pyfloat v = 0)"
proof -
  have a: "length cols < 6 \<longrightarrow> parse_newstock_row pyfloat clock cols w = (None, w)"
    by (simp add: parse_newstock_row_def)
  have b: "6 \<le> length cols \<longrightarrow>
        (\<exists>d w1. parse_newstock_row pyfloat clock cols w = (Some d, w1)
           \<and> issue_price d = parse_float pyfloat (cols ! 2)
           \<and> pe_ratio d = parse_float pyfloat (cols ! 5))"
    by (simp add: parse_newstock_row_def now_isoformat_def)
  note c = crawl_newstock_prices [of pyfloat clock found outcome w']
  note d = parse_float_eq [of pyfloat v]
  have e: "\<forall>e. pyfloat (filter (\<lambda>c. c \<noteq> 0x2c \<and> c \<noteq> 0x25) v) = Inl e \<longrightarrow>
          parse_float pyfloat v = 0"
    by (simp add: d)
  from a b c d e show ?thesis by blast
qed

theorem newstock_rows_and_parse_float_witness:
  "length short_row < 6
   \<and> parse_newstock_row sample_float sample_clock short_row (empty_world :: unit world) =
       (None, empty_world)
   \<and> 6 \<le> length odd_row
   \<and> sample_float (filter (\<lambda>c. c \<noteq> 0x2c \<and> c \<noteq> 0x25) (odd_row ! 2)) = Inl value_error
   \<and> parse_float sample_float (odd_row ! 2) = 0
   \<and> parse_float sample_float (priced_row ! 2) = 2469 / 2
   \<and> map issue_price (fst (crawl_eastmoney_newstock sample_float sample_clock
         (Inr [short_row, odd_row, priced_row]) (Inl timeout_error) empty_world)) =
       [0, 2469 / 2]
   \<and> map pe_ratio (fst (crawl_eastmoney_newstock sample_float sample_clock
         (Inr [short_row, odd_row, priced_row]) (Inl timeout_error) empty_world)) =
       [231 / 10, 0]"
proof -
  have h1: "length short_row < 6" by (simp add: short_row_def)
  have h2: "6 \<le> length odd_row" by (simp add: odd_row_def)
  have h3: "sample_float (filter (\<lambda>c. c \<noteq> 0x2c \<and> c \<noteq> 0x25) (odd_row ! 2)) = Inl value_error"
    by (simp add: odd_row_def sample_float_def ascii_def)
  have p1: "sample_float (filter (\<lambda>c. c \<noteq> 0x2c \<and> c \<noteq> 0x25) (priced_row ! 2)) = Inr (2469 / 2)"
    by (simp add: priced_row_def sample_float_def ascii_def)
  have p2: "sample_float (filter (\<lambda>c. c \<noteq> 0x2c \<and> c \<noteq> 0x25) (odd_row ! 5)) = Inr (231 / 10)"
    by (simp add: odd_row_def sample_float_def ascii_def)
  have p3: "sample_float (filter (\<lambda>c. c \<noteq> 0x2c \<and> c \<noteq> 0x25) (priced_row ! 5)) = Inl value_error"
    by (simp add: priced_row_def sample_float_def ascii_def)
  have f: "filter (\<lambda>cols. 6 \<le> length cols) (take 10 [short_row, odd_row, priced_row]) =
      [odd_row, priced_row]"
    by (simp add: short_row_def odd_row_def priced_row_def)
  note t1 = newstock_rows_and_parse_float
    [where cols = short_row and pyfloat = sample_float and clock = sample_clock
      and w = "empty_world :: unit world" and v = "odd_row ! 2"
      and found = "[short_row, odd_row, priced_row]" and outcome = "Inl timeout_error"
      and w' = empty_world]
  note t2 = newstock_rows_and_parse_float
    [where cols = short_row and pyfloat = sample_float and clock = sample_clock
      and w = "empty_world :: unit world" and v = "priced_row ! 2"
      and found = "[]" and outcome = "Inl timeout_error"
      and w' = "empty_world :: rat new_stock world"]
  note t3 = newstock_rows_and_parse_float
    [where cols = short_row and pyfloat = sample_float and clock = sample_clock
      and w = "empty_world :: unit world" and v = "odd_row ! 5"
      and found = "[]" and outcome = "Inl timeout_error"
      and w' = "empty_world :: rat new_stock world"]
  note t4 = newstock_rows_and_parse_float
    [where cols = short_row and pyfloat = sample_float and clock = sample_clock
      and w = "empty_world :: unit world" and v = "priced_row ! 5"
      and found = "[]" and outcome = "Inl timeout_error"
      and w' = "empty_world :: rat new_stock world"]
  have v1: "parse_float sample_float (odd_row ! 2) = 0" using t1 h3 by simp
  have v2: "parse_float sample_float (priced_row ! 2) = 2469 / 2" using t2 p1 by simp
  have v3: "parse_float sample_float (odd_row ! 5) = 231 / 10" using t3 p2 by simp
  have v4: "parse_float sample_float (priced_row ! 5) = 0" using t4 p3 by simp
  have r: "parse_newstock_row sample_float sample_clock short_row (empty_world :: unit world) =
       (None, empty_world)"
    using t1 h1 by blast
  have m1: "map issue_price (fst (crawl_eastmoney_newstock sample_float sample_clock
         (Inr [short_row, odd_row, priced_row]) (Inl timeout_error) empty_world)) =
       [0, 2469 / 2]"
    using t1 f v1 v2 by simp
  have m2: "map pe_ratio (fst (crawl_eastmoney_newstock sample_float sample_clock
         (Inr [short_row, odd_row, priced_row]) (Inl timeout_error) empty_world)) =
       [231 / 10, 0]"
    using t1 f v3 v4 by simp
  from h1 r h2 h3 v1 v2 m1 m2 show ?thesis by blast
qed

lemma labels_distinct: "bullish \<noteq> bearish" "bullish \<noteq> neutral" "bearish \<noteq> neutral"
  by (simp_all add: bullish_def bearish_def neutral_def)

lemma any_keyword_in_iff:
  "any_keyword_in keywords item \<longleftrightarrow>
     (\<exists>kw \<in> set keywords. \<exists>pre suf. get_content item = pre @ kw @ suf)"
  by (simp add: any_keyword_in_def list_ex_iff py_in_iff)

lemma keyword_count_replicate:
  "keyword_count kws (replicate m a @ replicate n b) =
     (if any_keyword_in kws a then m else 0) + (if any_keyword_in kws b then n else 0)"
  by (simp add: keyword_count_def)

lemma analyze_market_sentiment_counts:
  "analyze_market_sentiment data =
     sentiment_of_counts (keyword_count positive_keywords data)
       (keyword_count negative_keywords data)"
  by (simp add: analyze_market_sentiment_def keyword_count_def sentiment_of_counts_def)

lemma sample_items:
  "any_keyword_in positive_keywords rising_item" "\<not> any_keyword_in negative_keywords rising_item"
  "any_keyword_in negative_keywords falling_item" "\<not> any_keyword_in positive_keywords falling_item"
  by (simp_all add: any_keyword_in_def positive_keywords_def negative_keywords_def
      rising_item_def falling_item_def get_content_def)

text \<open>
  C3. The label is decided by the number of items whose content contains a positive
  keyword and the number of items whose content contains a negative keyword: it is the
  bullish sentence exactly when the first exceeds 1.5 times the second, the bearish
  sentence exactly when the second exceeds 1.5 times the first, and the neutral
  sentence otherwise; the counts (10,4), (4,10) and (5,4) give bullish, bearish and
  neutral.
\<close>

theorem market_sentiment_threshold:
  "analyze_market_sentiment data =
     sentiment_of_counts (keyword_count positive_keywords data)
       (keyword_count negative_keywords data)
   \<and> keyword_count keywords data =
       length (filter (\<lambda>item. \<exists>kw \<in> set keywords. \<exists>pre suf. get_content item = pre @ kw @ suf)
         data)
   \<and> (sentiment_of_counts p n = bullish \<longleftrightarrow> real p > 1.5 * real n)
   \<and> (sentiment_of_counts p n = bearish \<longleftrightarrow> real n > 1.5 * real p)
   \<and> (sentiment_of_counts p n = neutral \<longleftrightarrow>
        \<not> real p > 1.5 * real n \<and> \<not> real n > 1.5 * real p)
   \<and> sentiment_of_counts 10 4 = bullish
   \<and> sentiment_of_counts 4 10 = bearish
   \<and> sentiment_of_counts 5 4 = neutral
   \<and> analyze_market_sentiment (replicate 10 rising_item @ replicate 4 falling_item) = bullish
   \<and> analyze_market_sentiment (replicate 4 rising_item @ replicate 10 falling_item) = bearish
   \<and> analyze_market_sentiment (replicate 5 rising_item @ replicate 4 falling_item) = neutral"
proof -
  have a: "analyze_market_sentiment data =
     sentiment_of_counts (keyword_count positive_keywords data)
       (keyword_count negative_keywords data)"
    by (rule analyze_market_sentiment_counts)
  have b: "keyword_count keywords data =
       length (filter (\<lambda>item. \<exists>kw \<in> set keywords. \<exists>pre suf. get_content item = pre @ kw @ suf)
         data)"
  proof -
    have "any_keyword_in keywords =
        (\<lambda>item. \<exists>kw \<in> set keywords. \<exists>pre suf. get_content item = pre @ kw @ suf)"
      by (rule ext) (rule any_keyword_in_iff)
    then show ?thesis by (simp add: keyword_count_def)
  qed
  have c: "sentiment_of_counts p n = bullish \<longleftrightarrow> real p > 1.5 * real n"
    using labels_distinct by (auto simp: sentiment_of_counts_def)
  have d: "sentiment_of_counts p n = bearish \<longleftrightarrow> real n > 1.5 * real p"
    using labels_distinct by (auto simp: sentiment_of_counts_def)
  have e: "sentiment_of_counts p n = neutral \<longleftrightarrow>
        \<not> real p > 1.5 * real n \<and> \<not> real n > 1.5 * real p"
    using labels_distinct by (auto simp: sentiment_of_counts_def)
  have f: "sentiment_of_counts 10 4 = bullish" "sentiment_of_counts 4 10 = bearish"
    "sentiment_of_counts 5 4 = neutral"
    by (simp_all add: sentiment_of_counts_def)
  have g: "analyze_market_sentiment (replicate 10 rising_item @ replicate 4 falling_item) = bullish"
    "analyze_market_sentiment (replicate 4 rising_item @ replicate 10 falling_item) = bearish"
    "analyze_market_sentiment (replicate 5 rising_item @ replicate 4 falling_item) = neutral"
    by (simp_all add: analyze_market_sentiment_counts keyword_count_replicate sample_items f)
  from a b c d e f g show ?thesis by blast
qed

lemma tasks_lookup:
  "map_of tasks (ascii ''pre_market'') = Some GeneratePreMarketStrategy"
  "map_of tasks (ascii ''opening_news'') = Some AnalyzeOpeningNews"
  "map_of tasks (ascii ''dragon_tiger'') = Some AnalyzeDragonTigerList"
  "map_of tasks (ascii ''northbound'') = Some AnalyzeNorthboundCapital"
  "map_of tasks (ascii ''closing'') = Some AnalyzeClosingSummary"
  by (simp_all add: tasks_def ascii_def)

lemma task_names:
  "set (map fst tasks) =
     {ascii ''pre_market'', ascii ''opening_news'', ascii ''dragon_tiger'', ascii ''northbound'',
      ascii ''closing''}"
  by (simp add: tasks_def)

text \<open>
  C6. A task name outside the five names gives \<open>success: false\<close> with status 400 and
  runs nothing; one of the five names whose routine raises gives \<open>success: false\<close> with
  status 500 and the exception's message; one whose routine returns gives
  \<open>success: true\<close> with what the routine returned as \<open>data\<close>.
\<close>

theorem execute_task_responses:
  "set (map fst tasks) =
     {ascii ''pre_market'', ascii ''opening_news'', ascii ''dragon_tiger'', ascii ''northbound'',
      ascii ''closing''}
   \<and> (task_name \<notin> set (map fst tasks) \<longrightarrow>
        execute_task run task_name w =
          (\<lparr>success = False, resp_data = None, error = Some (unknown_task @ task_name),
            status = 400\<rparr>, w))
   \<and> (task_name \<in> set (map fst tasks) \<longrightarrow>
        (\<exists>r. map_of tasks task_name = Some r
           \<and> (\<forall>e w1. run r w = (Inl e, w1) \<longrightarrow>
                 fst (execute_task run task_name w) =
                   \<lparr>success = False, resp_data = None, error = Some (exn_message e), status = 500\<rparr>
                 \<and> logs (snd (execute_task run task_name w)) =
                     logs w1 @ [(ERROR, TaskFailed task_name e)])
           \<and> (\<forall>result w1. run r w = (Inr result, w1) \<longrightarrow>
                 execute_task run task_name w =
                   (\<lparr>success = True, resp_data = Some result, error = None, status = 200\<rparr>, w1))))"
proof -
  have a: "task_name \<notin> set (map fst tasks) \<longrightarrow>
        execute_task run task_name w =
          (\<lparr>success = False, resp_data = None, error = Some (unknown_task @ task_name),
            status = 400\<rparr>, w)"
  proof
    assume "task_name \<notin> set (map fst tasks)"
    then have "map_of tasks task_name = None"
      by (simp add: map_of_eq_None_iff)
    then show "execute_task run task_name w =
          (\<lparr>success = False, resp_data = None, error = Some (unknown_task @ task_name),
            status = 400\<rparr>, w)"
      by (simp add: execute_task_def)
  qed
  have b: "task_name \<in> set (map fst tasks) \<longrightarrow>
        (\<exists>r. map_of tasks task_name = Some r
           \<and> (\<forall>e w1. run r w = (Inl e, w1) \<longrightarrow>
                 fst (execute_task run task_name w) =
                   \<lparr>success = False, resp_data = None, error = Some (exn_message e), status = 500\<rparr>
                 \<and> logs (snd (execute_task run task_name w)) =
                     logs w1 @ [(ERROR, TaskFailed task_name e)])
           \<and> (\<forall>result w1. run r w = (Inr result, w1) \<longrightarrow>
                 execute_task run task_name w =
                   (\<lparr>success = True, resp_data = Some result, error = None, status = 200\<rparr>, w1)))"
  proof
    assume "task_name \<in> set (map fst tasks)"
    then obtain r where r: "map_of tasks task_name = Some r"
      using map_of_eq_None_iff [of tasks task_name] by (cases "map_of tasks task_name") auto
    have "(\<forall>e w1. run r w = (Inl e, w1) \<longrightarrow>
                 fst (execute_task run task_name w) =
                   \<lparr>success = False, resp_data = None, error = Some (exn_message e), status = 500\<rparr>
                 \<and> logs (snd (execute_task run task_name w)) =
                     logs w1 @ [(ERROR, TaskFailed task_name e)])
           \<and> (\<forall>result w1. run r w = (Inr result, w1) \<longrightarrow>
                 execute_task run task_name w =
                   (\<lparr>success = True, resp_data = Some result, error = None, status = 200\<rparr>, w1))"
      by (simp add: execute_task_def r log_to_simps)
    with r show "\<exists>r. map_of tasks task_name = Some r
           \<and> (\<forall>e w1. run r w = (Inl e, w1) \<longrightarrow>
                 fst (execute_task run task_name w) =
                   \<lparr>success = False, resp_data = None, error = Some (exn_message e), status = 500\<rparr>
                 \<and> logs (snd (execute_task run task_name w)) =
                     logs w1 @ [(ERROR, TaskFailed task_name e)])
           \<and> (\<forall>result w1. run r w = (Inr result, w1) \<longrightarrow>
                 execute_task run task_name w =
                   (\<lparr>success = True, resp_data = Some result, error = None, status = 200\<rparr>, w1))"
      by blast
  qed
  from task_names a b show ?thesis by blast
qed

text \<open>
  C10. Whatever boolean the ping returns, the health route answers with status 200 and
  the status value \<open>healthy\<close>; the \<open>elasticsearch\<close> field alone depends on the ping:
  \<open>connected\<close> when it returns true, \<open>disconnected\<close> when it returns false.
\<close>

theorem health_check_always_healthy:
  "fst (health_check clock (Inr up) w) =
     Inr (\<lparr>health_status = ascii ''healthy'', timestamp = clock (ticks w),
           elasticsearch = (if up then ascii ''connected'' else ascii ''disconnected'')\<rparr>, 200)
   \<and> ascii ''connected'' \<noteq> ascii ''disconnected''
   \<and> ascii ''healthy'' \<noteq> ascii ''disconnected''"
  by (simp add: health_check_def now_isoformat_def ascii_def)

theorem execute_task_responses_witness:
  "ascii ''bogus'' \<notin> set (map fst tasks)
   \<and> execute_task sample_run (ascii ''bogus'') (empty_world :: unit world) =
       (\<lparr>success = False, resp_data = None, error = Some (unknown_task @ ascii ''bogus''),
         status = 400\<rparr>, empty_world)
   \<and> ascii ''opening_news'' \<in> set (map fst tasks)
   \<and> sample_run AnalyzeOpeningNews (empty_world :: unit world) = (Inl timeout_error, empty_world)
   \<and> fst (execute_task sample_run (ascii ''opening_news'') (empty_world :: unit world)) =
       \<lparr>success = False, resp_data = None, error = Some (ascii ''timed out''), status = 500\<rparr>
   \<and> ascii ''closing'' \<in> set (map fst tasks)
   \<and> sample_run AnalyzeClosingSummary (empty_world :: unit world) =
       (Inr (ascii ''artifact''), empty_world)
   \<and> execute_task sample_run (ascii ''closing'') (empty_world :: unit world) =
       (\<lparr>success = True, resp_data = Some (ascii ''artifact''), error = None, status = 200\<rparr>,
        empty_world)"
proof -
  have h1: "ascii ''bogus'' \<notin> set (map fst tasks)"
    by (simp add: tasks_def ascii_def)
  have h2: "ascii ''opening_news'' \<in> set (map fst tasks)"
    by (simp add: tasks_def)
  have h3: "ascii ''closing'' \<in> set (map fst tasks)"
    by (simp add: tasks_def)
  have r2: "sample_run AnalyzeOpeningNews (empty_world :: unit world) =
      (Inl timeout_error, empty_world)"
    by (simp add: sample_run_def)
  have r3: "sample_run AnalyzeClosingSummary (empty_world :: unit world) =
       (Inr (ascii ''artifact''), empty_world)"
    by (simp add: sample_run_def)
  have a: "execute_task sample_run (ascii ''bogus'') (empty_world :: unit world) =
       (\<lparr>success = False, resp_data = None, error = Some (unknown_task @ ascii ''bogus''),
         status = 400\<rparr>, empty_world)"
    using h1 execute_task_responses [of "ascii ''bogus''" sample_run "empty_world :: unit world"]
    by blast
  have "fst (execute_task sample_run (ascii ''opening_news'') (empty_world :: unit world)) =
       \<lparr>success = False, resp_data = None, error = Some (exn_message timeout_error),
         status = 500\<rparr>"
    using h2 r2 tasks_lookup(2)
      execute_task_responses [of "ascii ''opening_news''" sample_run "empty_world :: unit world"]
    by auto
  then have b: "fst (execute_task sample_run (ascii ''opening_news'') (empty_world :: unit world)) =
       \<lparr>success = False, resp_data = None, error = Some (ascii ''timed out''), status = 500\<rparr>"
    by (simp add: timeout_error_def)
  have c: "execute_task sample_run (ascii ''closing'') (empty_world :: unit world) =
       (\<lparr>success = True, resp_data = Some (ascii ''artifact''), error = None, status = 200\<rparr>,
        empty_world)"
    using h3 r3 tasks_lookup(5)
      execute_task_responses [of "ascii ''closing''" sample_run "empty_world :: unit world"]
    by auto
  from h1 a h2 r2 b h3 r3 c show ?thesis by blast
qed

text \<open>What the route does when the ping raises: the exception leaves the route.\<close>

lemma health_check_ping_raises: "fst (health_check clock (Inl e) w) = Inl e"
  by (simp add: health_check_def now_isoformat_def)

lemma scheduled_ids:
  "map job_id scheduled_jobs =
     [ascii ''pre_market_strategy'', ascii ''opening_news'', ascii ''dragon_tiger_list'',
      ascii ''northbound_capital'', ascii ''closing_summary'', ascii ''crawl_sina_hourly'']"
  by (simp add: scheduled_jobs_def)

lemma scheduled_ids_distinct: "distinct (map job_id scheduled_jobs)"
  unfolding scheduled_ids by (simp add: ascii_def)

lemma round_half_even_error: "\<bar>of_int (round_half_even y) - y\<bar> \<le> 1 / 2"
proof -
  have "of_int \<lfloor>y\<rfloor> \<le> y" "y < of_int \<lfloor>y\<rfloor> + 1" by linarith+
  then show ?thesis
    by (auto simp: round_half_even_def Let_def)
qed

lemma round_half_even_nonneg: "0 \<le> y \<Longrightarrow> 0 \<le> round_half_even y"
proof -
  assume "0 \<le> y"
  then have "0 \<le> \<lfloor>y\<rfloor>" by simp
  then show ?thesis by (auto simp: round_half_even_def Let_def)
qed

lemma round_half_even_le: "y \<le> of_int m \<Longrightarrow> round_half_even y \<le> m"
proof -
  assume a: "y \<le> of_int m"
  then have f: "\<lfloor>y\<rfloor> \<le> m" by (simp add: floor_le_iff)
  show ?thesis
  proof (cases "\<lfloor>y\<rfloor> = m")
    case True
    have "of_int \<lfloor>y\<rfloor> \<le> y" by linarith
    with a True have "y - of_int \<lfloor>y\<rfloor> = 0" by simp
    then show ?thesis using True by (simp add: round_half_even_def Let_def)
  next
    case False
    with f have "\<lfloor>y\<rfloor> + 1 \<le> m" by simp
    then show ?thesis by (auto simp: round_half_even_def Let_def)
  qed
qed

lemma exponent_le_0:
  assumes "0 < x" "x \<le> 1"
  shows "exponent x \<le> 0"
proof -
  obtain a b where q: "quotient_of x = (a, b)" by (cases "quotient_of x")
  then have b: "0 < b" by (rule quotient_of_denom_pos)
  from q have x: "x = of_int a / of_int b" by (rule quotient_of_div)
  from assms b x have "a \<le> b"
    by (simp add: divide_le_eq)
  then have "bitlen a \<le> bitlen b"
    by (simp add: bitlen_def floorlog_mono)
  then show ?thesis
    by (simp add: exponent_def q Let_def)
qed

lemma pow2_big:
  assumes "e \<le> 0"
  shows "pow2 (52 - e) = of_int (2 ^ nat (52 - e)) \<and> (2 :: rat) ^ 52 \<le> pow2 (52 - e)"
proof -
  from assms have n: "52 \<le> nat (52 - e)" by simp
  have "(2 :: rat) ^ 52 \<le> 2 ^ nat (52 - e)"
    using n by (intro power_increasing) simp_all
  with assms show ?thesis by (simp add: pow2_def)
qed

lemma fl_bounds:
  assumes "0 \<le> x" "x \<le> 1"
  shows "0 \<le> fl x \<and> fl x \<le> 1 \<and> \<bar>fl x - x\<bar> \<le> 1 / 2 ^ 53"
proof (cases "x = 0")
  case True
  then show ?thesis by (simp add: fl_def)
next
  case False
  with assms have pos: "0 < x" by simp
  define s where "s = pow2 (52 - exponent x)"
  define m where "m = round_half_even (x * s)"
  from pow2_big [OF exponent_le_0 [OF pos assms(2)]]
  have si: "s = of_int (2 ^ nat (52 - exponent x))" and sb: "(2 :: rat) ^ 52 \<le> s"
    by (simp_all add: s_def)
  from sb have sp: "0 < s" by (simp add: less_le_trans [of 0 "2 ^ 52" s])
  have f: "fl x = of_int m / s"
    using False by (simp add: fl_def s_def m_def Let_def)
  have m0: "0 \<le> m"
    unfolding m_def using assms(1) sp by (intro round_half_even_nonneg) simp
  have "x * s \<le> of_int (2 ^ nat (52 - exponent x))"
    using assms(2) sp si by (simp add: mult_le_cancel_right1)
  then have "m \<le> 2 ^ nat (52 - exponent x)"
    unfolding m_def by (rule round_half_even_le)
  then have "(of_int m :: rat) \<le> of_int (2 ^ nat (52 - exponent x))"
    by (simp only: of_int_le_iff)
  then have m1: "of_int m \<le> s" using si by simp
  have e: "\<bar>of_int m - x * s\<bar> \<le> 1 / 2"
    unfolding m_def by (rule round_half_even_error)
  have "\<bar>fl x - x\<bar> = \<bar>of_int m - x * s\<bar> / s"
    using sp by (simp add: f field_simps abs_mult)
  also have "\<dots> \<le> (1 / 2) / s"
    using e sp by (intro divide_right_mono) simp_all
  also have "\<dots> \<le> (1 / 2) / 2 ^ 52"
    using sb by (intro divide_left_mono) simp_all
  finally have err: "\<bar>fl x - x\<bar> \<le> 1 / 2 ^ 53" by simp
  from m0 m1 sp err show ?thesis by (simp add: f)
qed

lemma pow2_powi: "pow2 e = 2 powi e"
  by (simp add: pow2_def power_int_def inverse_eq_divide power_one_over)

lemma powi2_diff: "(2 :: rat) powi (m - n) = 2 powi m / 2 powi n"
  by (simp add: power_int_diff)

lemma bitlen_rat_bounds:
  assumes "0 < a"
  shows "(2 :: rat) powi (bitlen a - 1) \<le> of_int a \<and> of_int a < (2 :: rat) powi (bitlen a)"
proof -
  from bitlen_bounds [OF assms]
  have l: "2 ^ nat (bitlen a - 1) \<le> a" and u: "a < 2 ^ nat (bitlen a)" by simp_all
  have p: "1 \<le> bitlen a" using assms by (auto simp: bitlen_alt_def)
  from l have "(of_int (2 ^ nat (bitlen a - 1)) :: rat) \<le> of_int a"
    by (simp only: of_int_le_iff)
  then have l': "(2 :: rat) powi (bitlen a - 1) \<le> of_int a"
    using p by (simp add: power_int_def)
  from u have "(of_int a :: rat) < of_int (2 ^ nat (bitlen a))"
    by (simp only: of_int_less_iff)
  then have u': "of_int a < (2 :: rat) powi (bitlen a)"
    using p by (simp add: power_int_def)
  from l' u' show ?thesis by blast
qed

lemma exponent_spec:
  assumes "0 < x"
  shows "pow2 (exponent x) \<le> x \<and> x < pow2 (exponent x + 1)"
proof -
  obtain a b where q: "quotient_of x = (a, b)" by (cases "quotient_of x")
  then have b: "0 < b" by (rule quotient_of_denom_pos)
  from q have x: "x = of_int a / of_int b" by (rule quotient_of_div)
  from assms b x have a: "0 < a" by (simp add: zero_less_divide_iff)
  define d where "d = bitlen a - bitlen b"
  from bitlen_rat_bounds [OF a] bitlen_rat_bounds [OF b]
  have al: "(2 :: rat) powi (bitlen a - 1) \<le> of_int a" and au: "of_int a < (2 :: rat) powi (bitlen a)"
    and bl: "(2 :: rat) powi (bitlen b - 1) \<le> of_int b" and bu: "of_int b < (2 :: rat) powi (bitlen b)"
    by simp_all
  have bp: "(0 :: rat) < of_int b" using b by simp
  have p0: "\<And>i. (0 :: rat) < 2 powi i" by simp
  have "x < 2 powi (bitlen a) / of_int b"
    unfolding x using au bp by (simp add: divide_strict_right_mono)
  also have "\<dots> \<le> 2 powi (bitlen a) / 2 powi (bitlen b - 1)"
    by (intro divide_left_mono mult_pos_pos) (use bl p0 bp in \<open>simp_all add: less_imp_le\<close>)
  also have "\<dots> = 2 powi (d + 1)"
  proof -
    have "d + 1 = bitlen a - (bitlen b - 1)" by (simp add: d_def)
    then show ?thesis by (simp only: powi2_diff)
  qed
  finally have up: "x < 2 powi (d + 1)" .
  have "(2 :: rat) powi (d - 1) = 2 powi (bitlen a - 1) / 2 powi (bitlen b)"
  proof -
    have "d - 1 = (bitlen a - 1) - bitlen b" by (simp add: d_def)
    then show ?thesis by (simp only: powi2_diff)
  qed
  also have "\<dots> \<le> of_int a / 2 powi (bitlen b)"
    by (intro divide_right_mono) (use al p0 in \<open>simp_all add: less_imp_le\<close>)
  also have "\<dots> \<le> of_int a / of_int b"
    by (intro divide_left_mono mult_pos_pos) (use bu bp a p0 in \<open>simp_all add: less_imp_le\<close>)
  finally have lo: "2 powi (d - 1) \<le> x" by (simp add: x)
  have e: "exponent x = (if pow2 d \<le> x then d else d - 1)"
    by (simp add: exponent_def q d_def Let_def)
  show ?thesis
  proof (cases "pow2 d \<le> x")
    case True
    with e up show ?thesis by (simp add: pow2_powi)
  next
    case False
    with e lo show ?thesis by (simp add: pow2_powi)
  qed
qed

text \<open>The scaled value lies in the range of a 53-bit significand.\<close>

lemma fl_significand:
  assumes "0 < x"
  shows "2 ^ 52 \<le> x * pow2 (52 - exponent x) \<and> x * pow2 (52 - exponent x) < 2 ^ 53"
proof -
  from exponent_spec [OF assms]
  have l: "2 powi (exponent x) \<le> x" and u: "x < 2 powi (exponent x + 1)"
    by (simp_all add: pow2_powi)
  have p: "(0 :: rat) < 2 powi (52 - exponent x)" by simp
  have "2 powi (exponent x) * 2 powi (52 - exponent x) \<le> x * 2 powi (52 - exponent x)"
    using l p by (intro mult_right_mono) simp_all
  moreover have "(2 :: rat) powi (exponent x) * 2 powi (52 - exponent x) = 2 powi 52"
    by (simp add: power_int_add [symmetric])
  ultimately have a: "2 ^ 52 \<le> x * pow2 (52 - exponent x)"
    by (simp add: pow2_powi)
  have "x * 2 powi (52 - exponent x) < 2 powi (exponent x + 1) * 2 powi (52 - exponent x)"
    using u p by (intro mult_strict_right_mono) simp_all
  moreover have "(2 :: rat) powi (exponent x + 1) * 2 powi (52 - exponent x) = 2 powi 53"
    by (simp add: power_int_add [symmetric])
  ultimately have b: "x * pow2 (52 - exponent x) < 2 ^ 53"
    by (simp add: pow2_powi)
  from a b show ?thesis by blast
qed

lemma keyword_count_le: "keyword_count keywords data \<le> length data"
  by (simp add: keyword_count_def)

lemma nearest_hundredth:
  fixes c n :: nat and k :: int and x :: rat
  assumes n: "0 < n" "n < 2 ^ 45"
    and x: "\<bar>x - of_nat c / of_nat n\<bar> \<le> 1 / 2 ^ 53"
    and k: "\<bar>of_int k - x * 100\<bar> \<le> 1 / 2"
  shows "\<bar>of_int k - 100 * (of_nat c / of_nat n :: rat)\<bar> \<le> 1 / 2"
proof -
  define q :: rat where "q = of_nat c / of_nat n"
  define K :: int where "K = 2 * k * int n - 200 * int c"
  have np: "(0 :: rat) < of_nat n" using n(1) by simp
  have qn: "q * of_nat n = of_nat c" using np by (simp add: q_def)
  have "of_int k - 100 * q = (of_int k - x * 100) + 100 * (x - q)"
    by (simp add: algebra_simps)
  then have "\<bar>of_int k - 100 * q\<bar> \<le> \<bar>of_int k - x * 100\<bar> + \<bar>100 * (x - q)\<bar>"
    by (simp only: abs_triangle_ineq)
  also have "\<dots> = \<bar>of_int k - x * 100\<bar> + 100 * \<bar>x - q\<bar>"
    by (simp only: abs_mult abs_numeral)
  finally have "\<bar>of_int k - 100 * q\<bar> \<le> \<bar>of_int k - x * 100\<bar> + 100 * \<bar>x - q\<bar>" .
  also have "\<dots> \<le> 1 / 2 + 100 * (1 / 2 ^ 53)"
    using k x by (simp add: q_def)
  finally have d: "\<bar>of_int k - 100 * q\<bar> \<le> 1 / 2 + 100 / 2 ^ 53" by simp
  have Kq: "(of_int K :: rat) = 2 * of_nat n * (of_int k - 100 * q)"
    using qn by (simp add: K_def algebra_simps)
  have "\<bar>(of_int K :: rat)\<bar> = 2 * of_nat n * \<bar>of_int k - 100 * q\<bar>"
    unfolding Kq by (simp add: abs_mult)
  also have "\<dots> \<le> 2 * of_nat n * (1 / 2 + 100 / 2 ^ 53)"
    using d np by (intro mult_left_mono) simp_all
  also have "\<dots> = of_nat n + of_nat (200 * n) / 2 ^ 53"
    by (simp add: algebra_simps)
  also have "\<dots> < of_nat n + 1"
  proof -
    have "200 * n < 200 * 2 ^ 45" using n(2) by simp
    also have "\<dots> < (2 :: nat) ^ 53" by simp
    finally have "(of_nat (200 * n) :: rat) < of_nat (2 ^ 53)"
      by (simp only: of_nat_less_iff)
    then have "(of_nat (200 * n) :: rat) / 2 ^ 53 < 1" by simp
    then show ?thesis by simp
  qed
  finally have "\<bar>(of_int K :: rat)\<bar> < of_int (int n + 1)" by simp
  then have "(of_int \<bar>K\<bar> :: rat) < of_int (int n + 1)" by simp
  then have "\<bar>K\<bar> < int n + 1" by (simp only: of_int_less_iff)
  then have "\<bar>K\<bar> \<le> int n" by simp
  then have "(of_int \<bar>K\<bar> :: rat) \<le> of_int (int n)" by (simp only: of_int_le_iff)
  then have "\<bar>(of_int K :: rat)\<bar> \<le> of_nat n" by simp
  then have "2 * of_nat n * \<bar>of_int k - 100 * q\<bar> \<le> of_nat n"
    unfolding Kq by (simp add: abs_mult)
  then have "\<bar>of_int k - 100 * q\<bar> \<le> 1 / 2"
    using np by (simp add: field_simps)
  then show ?thesis by (simp add: q_def)
qed

lemma ratio_nonempty:
  fixes data :: "hit list" and sentiment :: pystr
  assumes "data \<noteq> []"
  defines "c \<equiv> keyword_count (ratio_keywords sentiment) data"
  defines "k \<equiv> round_half_even (fl (of_nat c / of_nat (length data)) * 100)"
  shows "calculate_sentiment_ratio data sentiment = Inr (fl (of_int k / 100))"
    and "0 \<le> k" and "k \<le> 100"
    and "0 \<le> fl (of_int k / 100)" and "fl (of_int k / 100) \<le> 1"
    and "\<bar>fl (of_int k / 100) - of_int k / 100\<bar> \<le> 1 / 2 ^ 53"
    and "length data < 2 ^ 45 \<Longrightarrow>
         \<bar>of_int k - 100 * (of_nat c / of_nat (length data) :: rat)\<bar> \<le> 1 / 2"
proof -
  let ?n = "length data"
  let ?q = "of_nat c / of_nat ?n :: rat"
  have n: "0 < ?n" using assms(1) by simp
  have cn: "c \<le> ?n" unfolding c_def by (rule keyword_count_le)
  have q0: "0 \<le> ?q" by simp
  have q1: "?q \<le> 1" using n cn by (simp add: divide_le_eq)
  from fl_bounds [OF q0 q1]
  have x0: "0 \<le> fl ?q" and x1: "fl ?q \<le> 1" and xe: "\<bar>fl ?q - ?q\<bar> \<le> 1 / 2 ^ 53"
    by simp_all
  show r: "calculate_sentiment_ratio data sentiment = Inr (fl (of_int k / 100))"
    using assms(1) n
    by (simp add: calculate_sentiment_ratio_def py_truediv_def py_round2_def k_def c_def)
  show k0: "0 \<le> k"
    unfolding k_def using x0 by (intro round_half_even_nonneg) simp
  have "fl ?q * 100 \<le> of_int 100" using x1 by simp
  then show k1: "k \<le> 100"
    unfolding k_def by (rule round_half_even_le)
  have h0: "(0 :: rat) \<le> of_int k / 100" using k0 by simp
  have h1: "(of_int k :: rat) / 100 \<le> 1" using k1 by simp
  from fl_bounds [OF h0 h1]
  show "0 \<le> fl (of_int k / 100)" and "fl (of_int k / 100) \<le> 1"
    and "\<bar>fl (of_int k / 100) - of_int k / 100\<bar> \<le> 1 / 2 ^ 53"
    by simp_all
  have ke: "\<bar>of_int k - fl ?q * 100\<bar> \<le> 1 / 2"
    unfolding k_def by (rule round_half_even_error)
  show "\<bar>of_int k - 100 * ?q\<bar> \<le> 1 / 2" if "?n < 2 ^ 45"
    using nearest_hundredth [OF n that xe ke] .
qed

lemma ratio_example:
  "calculate_sentiment_ratio (replicate 7 rising_item @ replicate 16 quiet_item)
     (ascii ''positive'') = Inr (fl (30 / 100))"
proof -
  have a: "any_keyword_in (ratio_keywords (ascii ''positive'')) rising_item"
    by (simp add: any_keyword_in_def ratio_keywords_def rising_item_def get_content_def)
  have b: "\<not> any_keyword_in (ratio_keywords (ascii ''positive'')) quiet_item"
    by (simp add: any_keyword_in_def ratio_keywords_def quiet_item_def get_content_def)
  have c: "keyword_count (ratio_keywords (ascii ''positive''))
      (replicate 7 rising_item @ replicate 16 quiet_item) = 7"
    by (simp add: keyword_count_replicate a b)
  have d: "py_round2 (fl (7 / 23)) = fl (30 / 100)"
    by code_simp
  show ?thesis
    by (simp add: calculate_sentiment_ratio_def c py_truediv_def d)
qed

lemma double_three_tenths: "fl (30 / 100) = 5404319552844595 / 18014398509481984"
  by code_simp

lemma keyword_count_eq:
  "keyword_count keywords data =
     length (filter (\<lambda>item. \<exists>kw \<in> set keywords. \<exists>pre suf. get_content item = pre @ kw @ suf)
       data)"
proof -
  have "any_keyword_in keywords =
      (\<lambda>item. \<exists>kw \<in> set keywords. \<exists>pre suf. get_content item = pre @ kw @ suf)"
    by (rule ext) (rule any_keyword_in_iff)
  then show ?thesis by (simp add: keyword_count_def)
qed

text \<open>
  C4. For an empty list the ratio is \<open>0.0\<close> and nothing raises. For a non-empty list the
  ratio is the float nearest to \<open>k / 100\<close> for a whole number \<open>k\<close> of hundredths between
  0 and 100, so it lies in \<open>[0, 1]\<close>; \<open>k / 100\<close> is the quotient of the number of items
  whose content contains a keyword of the chosen list by the number of items, rounded to
  the nearest hundredth (for lists of fewer than \<open>2 ^ 45\<close> items, where the float
  division cannot move the quotient across a rounding boundary). Seven matches out of 23
  items give the float written \<open>0.3\<close>.
\<close>

theorem sentiment_ratio_rounded:
  "calculate_sentiment_ratio [] sentiment = Inr 0
   \<and> (items \<noteq> [] \<longrightarrow>
        (\<exists>k. calculate_sentiment_ratio items sentiment = Inr (fl (of_int k / 100))
           \<and> 0 \<le> k \<and> k \<le> 100
           \<and> 0 \<le> fl (of_int k / 100) \<and> fl (of_int k / 100) \<le> 1
           \<and> \<bar>fl (of_int k / 100) - of_int k / 100\<bar> \<le> 1 / 2 ^ 53
           \<and> (length items < 2 ^ 45 \<longrightarrow>
                \<bar>of_int k - 100 * (of_nat (keyword_count (ratio_keywords sentiment) items)
                     / of_nat (length items) :: rat)\<bar> \<le> 1 / 2)))
   \<and> keyword_count (ratio_keywords sentiment) items =
       length (filter (\<lambda>item. \<exists>kw \<in> set (ratio_keywords sentiment).
                 \<exists>pre suf. get_content item = pre @ kw @ suf) items)
   \<and> calculate_sentiment_ratio (replicate 7 rising_item @ replicate 16 quiet_item)
         (ascii ''positive'') = Inr (fl (30 / 100))
   \<and> fl (30 / 100) = 5404319552844595 / 18014398509481984"
proof -
  have a: "calculate_sentiment_ratio [] sentiment = Inr 0"
    by (simp add: calculate_sentiment_ratio_def)
  have b: "items \<noteq> [] \<longrightarrow>
        (\<exists>k. calculate_sentiment_ratio items sentiment = Inr (fl (of_int k / 100))
           \<and> 0 \<le> k \<and> k \<le> 100
           \<and> 0 \<le> fl (of_int k / 100) \<and> fl (of_int k / 100) \<le> 1
           \<and> \<bar>fl (of_int k / 100) - of_int k / 100\<bar> \<le> 1 / 2 ^ 53
           \<and> (length items < 2 ^ 45 \<longrightarrow>
                \<bar>of_int k - 100 * (of_nat (keyword_count (ratio_keywords sentiment) items)
                     / of_nat (length items) :: rat)\<bar> \<le> 1 / 2))"
  proof
    assume ne: "items \<noteq> []"
    from ratio_nonempty [OF ne, of sentiment]
    show "\<exists>k. calculate_sentiment_ratio items sentiment = Inr (fl (of_int k / 100))
           \<and> 0 \<le> k \<and> k \<le> 100
           \<and> 0 \<le> fl (of_int k / 100) \<and> fl (of_int k / 100) \<le> 1
           \<and> \<bar>fl (of_int k / 100) - of_int k / 100\<bar> \<le> 1 / 2 ^ 53
           \<and> (length items < 2 ^ 45 \<longrightarrow>
                \<bar>of_int k - 100 * (of_nat (keyword_count (ratio_keywords sentiment) items)
                     / of_nat (length items) :: rat)\<bar> \<le> 1 / 2)"
      by blast
  qed
  note c = keyword_count_eq [of "ratio_keywords sentiment" items]
  from a b c ratio_example double_three_tenths show ?thesis by blast
qed

lemma ratio_example_count:
  "keyword_count (ratio_keywords (ascii ''positive''))
      (replicate 7 rising_item @ replicate 16 quiet_item) = 7"
proof -
  have a: "any_keyword_in (ratio_keywords (ascii ''positive'')) rising_item"
    by (simp add: any_keyword_in_def ratio_keywords_def rising_item_def get_content_def)
  have b: "\<not> any_keyword_in (ratio_keywords (ascii ''positive'')) quiet_item"
    by (simp add: any_keyword_in_def ratio_keywords_def quiet_item_def get_content_def)
  show ?thesis by (simp add: keyword_count_replicate a b)
qed

theorem sentiment_ratio_rounded_witness:
  "replicate 7 rising_item @ replicate 16 quiet_item \<noteq> []
   \<and> length (replicate 7 rising_item @ replicate 16 quiet_item) < 2 ^ 45
   \<and> (\<exists>k. calculate_sentiment_ratio (replicate 7 rising_item @ replicate 16 quiet_item)
             (ascii ''positive'') = Inr (fl (of_int k / 100))
          \<and> 0 \<le> k \<and> k \<le> 100
          \<and> \<bar>of_int k - 100 * (7 / 23 :: rat)\<bar> \<le> 1 / 2)"
proof -
  let ?d = "replicate 7 rising_item @ replicate 16 quiet_item"
  have h1: "?d \<noteq> []" by simp
  have h2: "length ?d < 2 ^ 45" by simp
  from h1 sentiment_ratio_rounded [of "ascii ''positive''" ?d]
  obtain k where r: "calculate_sentiment_ratio ?d (ascii ''positive'') = Inr (fl (of_int k / 100))"
    and k0: "0 \<le> k" and k1: "k \<le> 100"
    and n: "length ?d < 2 ^ 45 \<longrightarrow>
          \<bar>of_int k - 100 * (of_nat (keyword_count (ratio_keywords (ascii ''positive'')) ?d)
               / of_nat (length ?d) :: rat)\<bar> \<le> 1 / 2"
    by blast
  from n h2 have "\<bar>of_int k - 100 * (of_nat (keyword_count (ratio_keywords (ascii ''positive'')) ?d)
               / of_nat (length ?d) :: rat)\<bar> \<le> 1 / 2"
    by blast
  then have "\<bar>of_int k - 100 * (7 / 23 :: rat)\<bar> \<le> 1 / 2"
    by (simp add: ratio_example_count)
  with h1 h2 r k0 k1 show ?thesis by blast
qed

end
